theory Spec2Isabelle
  imports Complex_Main
begin

section \<open>Silence detector service (services/audio/silence-detector.service.ts)\<close>

text \<open>
  Times are milliseconds (\<open>nat\<close>), audio levels are the normalised readings of
  \<open>getCurrentAudioLevel\<close> (\<open>real\<close>; only the comparison with the threshold is used).
  A timer handle is a number handed out by the event loop.
\<close>

record SilenceDetectorOptions =
  silenceThreshold :: real
  silenceDuration :: nat
  checkInterval :: nat

text \<open>The \<open>defaultOptions\<close> of \<open>createSilenceDetector\<close>.\<close>

definition defaultOptions :: SilenceDetectorOptions where
  "defaultOptions = \<lparr>silenceThreshold = 5 / 100, silenceDuration = 5000, checkInterval = 100\<rparr>"

datatype listener = onSilenceDetected | onSpeechDetected | onError

text \<open>
  The object literal \<open>{ isSilent, silenceTimer, silenceDetectedFlag, isRunning }\<close> that the
  interval callback builds for \<open>handleSilence\<close> and \<open>handleSpeech\<close>. It is a fresh object
  holding copies of the closure variables: the handlers assign to its fields, not to the
  variables of \<open>createSilenceDetector\<close>.
\<close>

record handler_state =
  st_isSilent :: bool
  st_silenceTimer :: "nat option"
  st_silenceDetectedFlag :: bool
  st_isRunning :: bool

text \<open>
  A pending \<open>setTimeout\<close>: its handle, the time it is due, and the \<open>state\<close> object its
  callback closes over (the callback of \<open>handleSilence\<close> reads \<open>state.isRunning\<close> and
  \<open>state.silenceDetectedFlag\<close>).
\<close>

record timeout =
  t_handle :: nat
  t_due :: nat
  t_state :: handler_state

datatype ctx_state = CtxRunning | CtxSuspended | CtxClosed

datatype js_error = Error string | TypeError string | InvalidStateError

text \<open>The closure variables of \<open>createSilenceDetector\<close>.\<close>

record detector =
  audioContext :: "ctx_state option"
  analyzer :: bool
  microphone :: bool
  stream :: bool
  checkIntervalTimer :: "nat option"
  silenceTimer :: "nat option"
  isSilent :: bool
  isInitialized :: bool
  isRunning :: bool
  silenceDetectedFlag :: bool

text \<open>
  The detector together with the part of the browser it talks to: the clock, the event
  loop's pending timeouts and active intervals, whether \<open>getUserMedia\<close> grants the
  microphone, and the log of listener calls. A log entry holds the time of the call, the
  listener, and the value of the closure variable \<open>isRunning\<close> at that moment.
\<close>

record world =
  det :: detector
  now :: nat
  timeouts :: "timeout list"
  intervals :: "nat list"
  next_handle :: nat
  mic_granted :: bool
  calls :: "(nat \<times> listener \<times> bool) list"

definition createSilenceDetector :: detector where
  "createSilenceDetector = \<lparr>audioContext = None, analyzer = False, microphone = False,
     stream = False, checkIntervalTimer = None, silenceTimer = None, isSilent = False,
     isInitialized = False, isRunning = False, silenceDetectedFlag = False\<rparr>"

definition new_world :: "bool \<Rightarrow> world" where
  "new_world granted = \<lparr>det = createSilenceDetector, now = 0, timeouts = [], intervals = [],
     next_handle = 1, mic_granted = granted, calls = []\<rparr>"

definition isAudioSilent :: "real \<Rightarrow> real \<Rightarrow> bool" where
  "isAudioSilent audioLevel threshold = (audioLevel < threshold)"

definition invoke :: "listener \<Rightarrow> world \<Rightarrow> world" where
  "invoke l w = w\<lparr>calls := calls w @ [(now w, l, isRunning (det w))]\<rparr>"

definition clearTimeout :: "nat \<Rightarrow> world \<Rightarrow> world" where
  "clearTimeout h w = w\<lparr>timeouts := filter (\<lambda>t. t_handle t \<noteq> h) (timeouts w)\<rparr>"

definition clearInterval :: "nat \<Rightarrow> world \<Rightarrow> world" where
  "clearInterval h w = w\<lparr>intervals := filter (\<lambda>i. i \<noteq> h) (intervals w)\<rparr>"

text \<open>
  \<open>handleSilence(state, options, listeners)\<close>: returns the timer for the caller to store.
  In immediate mode the flag is set on \<open>state\<close> and the listener is called at once;
  otherwise a timeout of \<open>options.silenceDuration || 5000\<close> is armed whose callback
  closes over \<open>state\<close>.
\<close>

definition handleSilence ::
  "handler_state \<Rightarrow> SilenceDetectorOptions \<Rightarrow> world \<Rightarrow> nat option \<times> world" where
  "handleSilence state options w =
     (if \<not> st_isSilent state then
        (let state1 = state\<lparr>st_isSilent := True\<rparr> in
         if silenceDuration options = 0 then
           (if st_isRunning state1 \<and> \<not> st_silenceDetectedFlag state1
            then (None, invoke onSilenceDetected w)
            else (None, w))
         else
           (let h = next_handle w;
                d = (if silenceDuration options = 0 then 5000 else silenceDuration options)
            in (Some h,
                w\<lparr>timeouts := timeouts w @ [\<lparr>t_handle = h, t_due = now w + d, t_state = state1\<rparr>],
                  next_handle := Suc h\<rparr>)))
      else (st_silenceTimer state, w))"

text \<open>
  The callback of the timeout armed by \<open>handleSilence\<close>, run when the timeout fires. Its
  assignment \<open>state.silenceDetectedFlag = true\<close> goes to the object it closes over, which
  nothing reads afterwards; the same holds for the assignment in immediate mode above.
\<close>

definition silence_timer_callback :: "handler_state \<Rightarrow> world \<Rightarrow> world" where
  "silence_timer_callback state w =
     (if st_isRunning state \<and> \<not> st_silenceDetectedFlag state
      then invoke onSilenceDetected w else w)"

text \<open>
  \<open>handleSpeech(state, listeners)\<close>: the assignments go to the fields of \<open>state\<close>; the
  visible effects are the \<open>clearTimeout\<close> and the listener call.
\<close>

definition handleSpeech :: "handler_state \<Rightarrow> world \<Rightarrow> world" where
  "handleSpeech state w =
     (if st_isSilent state then
        invoke onSpeechDetected
          (case st_silenceTimer state of Some h \<Rightarrow> clearTimeout h w | None \<Rightarrow> w)
      else w)"

text \<open>
  \<open>initialize\<close>: a refused microphone calls \<open>onError\<close> and rethrows. The first
  component of the result is the error thrown, if any.
\<close>

definition initialize :: "world \<Rightarrow> js_error option \<times> world" where
  "initialize w =
     (if isInitialized (det w) then (None, w)
      else if \<not> mic_granted w
        then (Some (Error ''Microphone access denied''), invoke onError w)
      else (None, w\<lparr>det := (det w)\<lparr>stream := True, audioContext := Some CtxRunning,
                  analyzer := True, microphone := True, isInitialized := True,
                  silenceDetectedFlag := False\<rparr>\<rparr>))"

text \<open>
  \<open>start\<close>: the first component of the result is the error the returned promise is
  rejected with, if any.
\<close>

definition start :: "world \<Rightarrow> js_error option \<times> world" where
  "start w =
     (case (if \<not> isInitialized (det w) then initialize w else (None, w)) of
        (Some e, w1) \<Rightarrow> (Some e, w1)
      | (None, w1) \<Rightarrow>
          if isRunning (det w1) then (None, w1)
          else
            (let w2 = w1\<lparr>det := (det w1)\<lparr>isRunning := True, silenceDetectedFlag := False,
                                           isSilent := False\<rparr>\<rparr>;
                 w3 = (case silenceTimer (det w2) of
                         Some h \<Rightarrow> (clearTimeout h w2)\<lparr>det := (det w2)\<lparr>silenceTimer := None\<rparr>\<rparr>
                       | None \<Rightarrow> w2);
                 h = next_handle w3
             in (None, w3\<lparr>intervals := intervals w3 @ [h], next_handle := Suc h,
                       det := (det w3)\<lparr>checkIntervalTimer := Some h\<rparr>\<rparr>)))"

text \<open>
  The callback of \<open>setInterval\<close> in \<open>start\<close>, with the level the analyser reads. Only the
  returned timer is stored back into the closure variable \<open>silenceTimer\<close>.
\<close>

definition interval_callback :: "SilenceDetectorOptions \<Rightarrow> real \<Rightarrow> world \<Rightarrow> world" where
  "interval_callback options audioLevel w =
     (if \<not> analyzer (det w) \<or> \<not> isRunning (det w) then w
      else
        (let isSoundSilent = isAudioSilent audioLevel (silenceThreshold options);
             state = \<lparr>st_isSilent = isSilent (det w), st_silenceTimer = silenceTimer (det w),
                      st_silenceDetectedFlag = silenceDetectedFlag (det w),
                      st_isRunning = isRunning (det w)\<rparr>
         in if isSoundSilent then
              (case handleSilence state options w of
                 (timer, w1) \<Rightarrow> w1\<lparr>det := (det w1)\<lparr>silenceTimer := timer\<rparr>\<rparr>)
            else handleSpeech state w))"

definition stop :: "world \<Rightarrow> world" where
  "stop w =
     (let w1 = w\<lparr>det := (det w)\<lparr>isRunning := False\<rparr>\<rparr>;
          w2 = (case checkIntervalTimer (det w1) of
                  Some h \<Rightarrow> (clearInterval h w1)\<lparr>det := (det w1)\<lparr>checkIntervalTimer := None\<rparr>\<rparr>
                | None \<Rightarrow> w1)
      in (case silenceTimer (det w2) of
            Some h \<Rightarrow> (clearTimeout h w2)\<lparr>det := (det w2)\<lparr>silenceTimer := None\<rparr>\<rparr>
          | None \<Rightarrow> w2))"

text \<open>
  \<open>AudioContext.close()\<close> fails on a context that is already closed; \<open>cleanup\<close> guards
  the call with \<open>audioContext.state !== "closed"\<close>.
\<close>

definition ctx_close :: "ctx_state \<Rightarrow> js_error + ctx_state" where
  "ctx_close c = (if c = CtxClosed then Inl InvalidStateError else Inr CtxClosed)"

definition cleanup :: "world \<Rightarrow> js_error + world" where
  "cleanup w =
     (let w1 = stop w;
          d1 = (if microphone (det w1) then (det w1)\<lparr>microphone := False\<rparr> else det w1);
          d2 = (if analyzer d1 then d1\<lparr>analyzer := False\<rparr> else d1)
      in case (case audioContext d2 of
                 Some c \<Rightarrow>
                   (case (if c \<noteq> CtxClosed then ctx_close c else Inr c) of
                      Inl e \<Rightarrow> Inl e
                    | Inr _ \<Rightarrow> Inr (d2\<lparr>audioContext := None\<rparr>))
               | None \<Rightarrow> Inr d2) of
           Inl e \<Rightarrow> Inl e
         | Inr d3 \<Rightarrow>
             (let d4 = (if stream d3 then d3\<lparr>stream := False\<rparr> else d3)
              in Inr (w1\<lparr>det := d4\<lparr>isInitialized := False, silenceDetectedFlag := False\<rparr>\<rparr>)))"

subsection \<open>The event loop\<close>

text \<open>
  \<open>fire p w\<close> runs, in the order they were armed, the callbacks of the pending timeouts
  whose due time satisfies \<open>p\<close>, each at its due time, and removes them.
\<close>

fun fire_list :: "timeout list \<Rightarrow> world \<Rightarrow> world" where
  "fire_list [] w = w"
| "fire_list (t # ts) w =
     fire_list ts (silence_timer_callback (t_state t) (w\<lparr>now := t_due t\<rparr>))"

definition fire :: "(nat \<Rightarrow> bool) \<Rightarrow> world \<Rightarrow> world" where
  "fire p w =
     (let due = filter (\<lambda>t. p (t_due t)) (timeouts w);
          rest = filter (\<lambda>t. \<not> p (t_due t)) (timeouts w);
          t0 = now w
      in (fire_list due (w\<lparr>timeouts := rest\<rparr>))\<lparr>now := t0\<rparr>)"

text \<open>
  What happens to a detector: its API is called, or one check interval passes and the
  analyser then reads the given level. In \<open>Sample\<close> the timeouts that fall due before the
  tick fire first; \<open>timers_first\<close> says whether a timeout due exactly at the tick runs
  before or after the interval callback. The interval callback runs once for every active
  interval.
\<close>

datatype action = Start | Stop | Cleanup | Sample real

definition tick :: "SilenceDetectorOptions \<Rightarrow> real \<Rightarrow> world \<Rightarrow> world" where
  "tick options level w = fold (\<lambda>_. interval_callback options level) (intervals w) w"

fun step :: "SilenceDetectorOptions \<Rightarrow> bool \<Rightarrow> world \<Rightarrow> action \<Rightarrow> world" where
  "step options timers_first w Start =
     snd (start w)"
| "step options timers_first w Stop = stop w"
| "step options timers_first w Cleanup = (case cleanup w of Inl e \<Rightarrow> w | Inr w' \<Rightarrow> w')"
| "step options timers_first w (Sample level) =
     (let t = now w + checkInterval options;
          w1 = (fire (\<lambda>d. d < t) w)\<lparr>now := t\<rparr>
      in if timers_first then tick options level (fire (\<lambda>d. d \<le> t) w1)
         else fire (\<lambda>d. d \<le> t) (tick options level w1))"

definition run :: "SilenceDetectorOptions \<Rightarrow> bool \<Rightarrow> action list \<Rightarrow> world \<Rightarrow> world" where
  "run options timers_first as w = foldl (step options timers_first) w as"

definition silence_calls :: "world \<Rightarrow> (nat \<times> listener \<times> bool) list" where
  "silence_calls w = filter (\<lambda>c. fst (snd c) = onSilenceDetected) (calls w)"

definition speech_calls :: "world \<Rightarrow> (nat \<times> listener \<times> bool) list" where
  "speech_calls w = filter (\<lambda>c. fst (snd c) = onSpeechDetected) (calls w)"

subsection \<open>Closed form of a started detector in a quiet period\<close>

text \<open>
  Used to state the lemmas about the default configuration (threshold 0.05, 5000 ms,
  100 ms): \<open>quiet_world T k\<close> is the world of a detector that was started in
  \<open>new_world True\<close>, has seen only samples at or above the threshold until time \<open>T\<close>,
  and has then seen \<open>k\<close> consecutive samples below it. Every one of the \<open>k\<close> ticks has
  armed a timeout of its own (\<open>quiet_timeout T j\<close> for the tick number \<open>j\<close>, counted
  from 0); those of the ticks before \<open>k - 50\<close> have fired and called the listener
  (\<open>quiet_call T j\<close>), the others are pending.
\<close>

definition quiet_timeout :: "nat \<Rightarrow> nat \<Rightarrow> timeout" where
  "quiet_timeout T j = \<lparr>t_handle = 2 + j, t_due = T + (j + 1) * 100 + 5000,
     t_state = \<lparr>st_isSilent = True, st_silenceTimer = (if j = 0 then None else Some (Suc j)),
                st_silenceDetectedFlag = False, st_isRunning = True\<rparr>\<rparr>"

definition quiet_call :: "nat \<Rightarrow> nat \<Rightarrow> nat \<times> listener \<times> bool" where
  "quiet_call T j = (T + (j + 1) * 100 + 5000, onSilenceDetected, True)"

definition quiet_world :: "nat \<Rightarrow> nat \<Rightarrow> world" where
  "quiet_world T k = \<lparr>det = \<lparr>audioContext = Some CtxRunning, analyzer = True, microphone = True,
        stream = True, checkIntervalTimer = Some 1,
        silenceTimer = (if k = 0 then None else Some (Suc k)), isSilent = False,
        isInitialized = True, isRunning = True, silenceDetectedFlag = False\<rparr>,
      now = T + k * 100, timeouts = map (quiet_timeout T) [k - 50..<k], intervals = [1],
      next_handle = 2 + k, mic_granted = True, calls = map (quiet_call T) [0..<k - 50]\<rparr>"

text \<open>
  The invariant behind the silence of the speech listener: the closure variable
  \<open>isSilent\<close> is false and \<open>onSpeechDetected\<close> has not been called.
\<close>

definition never_quiet :: "world \<Rightarrow> bool" where
  "never_quiet w = (\<not> isSilent (det w) \<and> speech_calls w = [])"

section \<open>Strings\<close>

text \<open>
  Text is modelled as \<open>string\<close>, one \<open>char\<close> per code unit, for text in the 8-bit range.
  \<open>String.prototype.trim\<close> removes white space and line terminators from both ends; in
  this range these are TAB, LF, VT, FF, CR, SPACE and NO-BREAK SPACE (U+00A0). The other
  characters it removes (U+1680, U+2000 to U+200A, U+2028, U+2029, U+202F, U+205F, U+3000,
  U+FEFF) lie outside the range. A string is falsy when it is empty.
\<close>

definition is_ws :: "char \<Rightarrow> bool" where
  "is_ws c = (c = CHR 0x09 \<or> c = CHR 0x0A \<or> c = CHR 0x0B \<or> c = CHR 0x0C \<or> c = CHR 0x0D
               \<or> c = CHR '' '' \<or> c = CHR 0xA0)"

definition trim :: "string \<Rightarrow> string" where
  "trim s = rev (dropWhile is_ws (rev (dropWhile is_ws s)))"

text \<open>\<open>a || d\<close> for a string that may be missing: \<open>a\<close> when it is a non-empty string.\<close>

definition or_else :: "string option \<Rightarrow> string \<Rightarrow> string" where
  "or_else a d = (case a of Some x \<Rightarrow> if x \<noteq> [] then x else d | None \<Rightarrow> d)"

section \<open>OpenAI API (lib/openai.ts and services/api/openai.service.ts)\<close>

datatype Role = RoleSystem | RoleUser | RoleAssistant

record AudioPart =
  audio_transcript :: "string option"
  audio_data :: "string option"

text \<open>
  \<open>ChatMessage\<close>. The code tests \<open>typeof messageChoice.content === "string"\<close>, so the
  content of a message of the backend may be missing (\<open>None\<close>).
\<close>

record ChatMessage =
  role :: Role
  content :: "string option"
  audio :: "AudioPart option"

record ChatCompletionRequest =
  req_model :: string
  req_messages :: "ChatMessage list"
  req_max_tokens :: nat
  req_modalities :: "string list"
  req_voice :: string
  req_format :: string

record AudioOptions =
  opt_voice :: "string option"
  opt_format :: "string option"

record GPT4oResponse =
  resp_text :: string
  resp_audioData :: "string option"

record GPT4oAudioResponse =
  ar_transcription :: string
  ar_textResponse :: string
  ar_audioData :: "string option"

record Blob =
  blob_type :: string
  blob_size :: nat

text \<open>
  What \<open>fetch\<close> and the reading of the body give: the fetch is rejected; the response is
  not ok, with its status text and its body (parsed as JSON with the fields
  \<open>error.message\<close> and \<open>message\<close>, or, when the \<open>try\<close> around \<open>JSON.parse\<close> fails, the raw
  text); the response is ok but \<open>response.json()\<close> is rejected; or the parsed data.
\<close>

datatype error_body = JsonBody "string option" "string option" | TextBody string

datatype 'a response = Rejected js_error | NotOk string error_body | OkBadJson | Ok 'a

text \<open>The backend: what it answers to each of the two requests.\<close>

record backend =
  transcription_endpoint :: "Blob \<Rightarrow> string response"
  chat_endpoint :: "ChatCompletionRequest \<Rightarrow> ChatMessage list option response"

datatype request = Transcribe Blob | Complete ChatCompletionRequest

definition systemPrompt :: string where
  "systemPrompt = ''You are a helpful voice assistant. Provide concise and informative responses.''"

text \<open>
  The message of the error thrown for a response that is not ok:
  \<open>errorData.error?.message || errorData.message || response.statusText\<close>, or
  \<open>errorText || response.statusText\<close> in the \<open>catch\<close>.
\<close>

definition api_error :: "string \<Rightarrow> error_body \<Rightarrow> js_error" where
  "api_error statusText body =
     Error (''OpenAI API error: '' @
       (case body of
          JsonBody em m \<Rightarrow> or_else em (or_else m statusText)
        | TextBody errorText \<Rightarrow> or_else (Some errorText) statusText))"

text \<open>
  The request body built by \<open>sendMessageToGPT4o\<close> (\<open>createChatCompletionRequest\<close> in the
  service). The constant \<open>temperature: 0.7\<close> is left out.
\<close>

definition createChatCompletionRequest ::
  "string \<Rightarrow> ChatMessage list \<Rightarrow> AudioOptions option \<Rightarrow> ChatCompletionRequest" where
  "createChatCompletionRequest message history audioOptions =
     \<lparr>req_model = ''gpt-4o-audio-preview'',
      req_messages = [\<lparr>role = RoleSystem, content = Some systemPrompt, audio = None\<rparr>] @ history
                     @ [\<lparr>role = RoleUser, content = Some message, audio = None\<rparr>],
      req_max_tokens = 150,
      req_modalities = [''text'', ''audio''],
      req_voice = or_else (case audioOptions of Some a \<Rightarrow> opt_voice a | None \<Rightarrow> None) ''alloy'',
      req_format = or_else (case audioOptions of Some a \<Rightarrow> opt_format a | None \<Rightarrow> None) ''wav''\<rparr>"

text \<open>
  The first test of the extraction of the text, in both files: \<open>messageChoice.audio\<close> is
  there, its \<open>transcript\<close> is a string, and the trimmed transcript is not empty; the value
  is then the trimmed transcript.
\<close>

definition transcript_text :: "ChatMessage \<Rightarrow> string option" where
  "transcript_text messageChoice =
     (case audio messageChoice of
        Some a \<Rightarrow> (case audio_transcript a of
                     Some t \<Rightarrow> if trim t \<noteq> [] then Some (trim t) else None
                   | None \<Rightarrow> None)
      | None \<Rightarrow> None)"

text \<open>
  \<open>sendMessageToGPT4o\<close> of lib/openai.ts. The result is the list of requests sent and
  either the error thrown or the value returned.
\<close>

definition sendMessageToGPT4o ::
  "backend \<Rightarrow> string \<Rightarrow> ChatMessage list \<Rightarrow> string \<Rightarrow> AudioOptions option
     \<Rightarrow> request list \<times> (js_error + GPT4oResponse)" where
  "sendMessageToGPT4o b message conversationHistory apiKey audioOptions =
     (if apiKey = [] then ([], Inl (Error ''OpenAI API key is required''))
      else
        (let requestBody = createChatCompletionRequest message conversationHistory audioOptions
         in (case chat_endpoint b requestBody of
               Rejected e \<Rightarrow> ([Complete requestBody], Inl e)
             | NotOk statusText body \<Rightarrow> ([Complete requestBody], Inl (api_error statusText body))
             | OkBadJson \<Rightarrow> ([Complete requestBody], Inl (Error ''Failed to parse API response''))
             | Ok choices \<Rightarrow>
                 (case choices of
                    None \<Rightarrow> ([Complete requestBody], Inl (Error ''No response from OpenAI API''))
                  | Some [] \<Rightarrow> ([Complete requestBody], Inl (Error ''No response from OpenAI API''))
                  | Some (messageChoice # _) \<Rightarrow>
                      (let textResponse =
                             (case transcript_text messageChoice of
                                Some t \<Rightarrow> t
                              | None \<Rightarrow>
                                  (case content messageChoice of
                                     Some c \<Rightarrow> if trim c \<noteq> [] then trim c else []
                                   | None \<Rightarrow> []));
                           audioData =
                             (case audio messageChoice of
                                Some a \<Rightarrow> (case audio_data a of
                                             Some d \<Rightarrow> if d \<noteq> [] then Some d else None
                                           | None \<Rightarrow> None)
                              | None \<Rightarrow> None)
                       in if textResponse = [] \<and> audioData = None
                          then ([Complete requestBody], Inl (Error ''No response received from API''))
                          else ([Complete requestBody],
                                Inr \<lparr>resp_text = textResponse, resp_audioData = audioData\<rparr>))))))"

subsection \<open>services/api/openai.service.ts\<close>

definition validateApiKey :: "string \<Rightarrow> js_error option" where
  "validateApiKey apiKey = (if apiKey = [] then Some (Error ''OpenAI API key is required'') else None)"

definition prepareAudioForTranscription :: "Blob \<Rightarrow> Blob" where
  "prepareAudioForTranscription audioBlob =
     (if blob_type audioBlob \<noteq> ''audio/mp3'' \<and> blob_type audioBlob \<noteq> ''audio/mpeg''
      then audioBlob\<lparr>blob_type := ''audio/webm''\<rparr> else audioBlob)"

text \<open>
  \<open>parseTranscriptionResponse\<close>; in the service a rejected \<open>response.json()\<close> is thrown as
  it is.
\<close>

definition parseTranscriptionResponse :: "string response \<Rightarrow> js_error + string" where
  "parseTranscriptionResponse response =
     (case response of
        Rejected e \<Rightarrow> Inl e
      | NotOk statusText body \<Rightarrow> Inl (api_error statusText body)
      | OkBadJson \<Rightarrow> Inl (Error ''SyntaxError'')
      | Ok data_text \<Rightarrow> Inr (trim data_text))"

definition transcribeAudio ::
  "backend \<Rightarrow> Blob \<Rightarrow> string \<Rightarrow> request list \<times> (js_error + string)" where
  "transcribeAudio b audioBlob apiKey =
     (case validateApiKey apiKey of
        Some e \<Rightarrow> ([], Inl e)
      | None \<Rightarrow>
          (let processedBlob = prepareAudioForTranscription audioBlob
           in ([Transcribe processedBlob],
               parseTranscriptionResponse (transcription_endpoint b processedBlob))))"

definition parseChatCompletionResponse ::
  "ChatMessage list option response \<Rightarrow> js_error + GPT4oResponse" where
  "parseChatCompletionResponse response =
     (case response of
        Rejected e \<Rightarrow> Inl e
      | NotOk statusText body \<Rightarrow> Inl (api_error statusText body)
      | OkBadJson \<Rightarrow> Inl (Error ''SyntaxError'')
      | Ok choices \<Rightarrow>
          (case choices of
             None \<Rightarrow> Inl (Error ''No response from OpenAI API'')
           | Some [] \<Rightarrow> Inl (Error ''No response from OpenAI API'')
           | Some (messageChoice # _) \<Rightarrow>
               (let textResponse =
                      (case transcript_text messageChoice of
                         Some t \<Rightarrow> t
                       | None \<Rightarrow>
                           (case content messageChoice of
                              Some c \<Rightarrow> if trim c \<noteq> [] then trim c else []
                            | None \<Rightarrow> []));
                    audioData =
                      (case audio messageChoice of
                         Some a \<Rightarrow> (case audio_data a of
                                      Some d \<Rightarrow> if d \<noteq> [] then Some d else None
                                    | None \<Rightarrow> None)
                       | None \<Rightarrow> None)
                in if textResponse = [] \<and> audioData = None
                   then Inl (Error ''No response received from API'')
                   else Inr \<lparr>resp_text = textResponse, resp_audioData = audioData\<rparr>)))"

definition service_sendMessageToGPT4o ::
  "backend \<Rightarrow> string \<Rightarrow> ChatMessage list \<Rightarrow> string \<Rightarrow> AudioOptions option
     \<Rightarrow> request list \<times> (js_error + GPT4oResponse)" where
  "service_sendMessageToGPT4o b message conversationHistory apiKey audioOptions =
     (case validateApiKey apiKey of
        Some e \<Rightarrow> ([], Inl e)
      | None \<Rightarrow>
          (let requestBody = createChatCompletionRequest message conversationHistory audioOptions
           in ([Complete requestBody], parseChatCompletionResponse (chat_endpoint b requestBody))))"

text \<open>
  \<open>sendAudioToGPT4o\<close>: transcribe, refuse an empty transcription, then ask for the
  response.
\<close>

definition sendAudioToGPT4o ::
  "backend \<Rightarrow> Blob \<Rightarrow> ChatMessage list \<Rightarrow> string \<Rightarrow> AudioOptions option
     \<Rightarrow> request list \<times> (js_error + GPT4oAudioResponse)" where
  "sendAudioToGPT4o b audioBlob conversationHistory apiKey audioOptions =
     (case validateApiKey apiKey of
        Some e \<Rightarrow> ([], Inl e)
      | None \<Rightarrow>
          (case transcribeAudio b audioBlob apiKey of
             (reqs1, Inl e) \<Rightarrow> (reqs1, Inl e)
           | (reqs1, Inr transcription) \<Rightarrow>
               if transcription = [] \<or> trim transcription = []
               then (reqs1,
                     Inl (Error ''Could not transcribe audio. Please try speaking more clearly.''))
               else
                 (case service_sendMessageToGPT4o b transcription conversationHistory apiKey
                         audioOptions of
                    (reqs2, Inl e) \<Rightarrow> (reqs1 @ reqs2, Inl e)
                  | (reqs2, Inr response) \<Rightarrow>
                      (reqs1 @ reqs2,
                       Inr \<lparr>ar_transcription = transcription,
                            ar_textResponse = resp_text response,
                            ar_audioData = resp_audioData response\<rparr>))))"

datatype Sender = SenderUser | SenderAi

record SimpleMessage =
  sm_content :: string
  sm_sender :: Sender

definition formatConversationHistory :: "SimpleMessage list \<Rightarrow> ChatMessage list" where
  "formatConversationHistory msgs =
     map (\<lambda>msg. \<lparr>role = (if sm_sender msg = SenderUser then RoleUser else RoleAssistant),
                  content = Some (sm_content msg), audio = None\<rparr>) msgs"

section \<open>Audio recorder service (services/audio/recorder.service.ts)\<close>

datatype RecordingState = MrInactive | MrRecording | MrPaused

text \<open>
  The closure variables of \<open>createAudioRecorder\<close>: the \<open>MediaRecorder\<close> (its state) or
  null, the chunks, and whether the stream is held.
\<close>

record recorder =
  mediaRecorder :: "RecordingState option"
  audioChunks :: "Blob list"
  rec_stream :: bool

text \<open>\<open>MediaRecorder.stop()\<close> throws on an inactive recorder.\<close>

definition mr_stop :: "RecordingState \<Rightarrow> js_error + RecordingState" where
  "mr_stop st = (if st = MrInactive then Inl InvalidStateError else Inr MrInactive)"

text \<open>
  \<open>cleanup\<close> of the recorder. The test \<open>mediaRecorder?.state !== "inactive"\<close> also holds
  when there is no \<open>MediaRecorder\<close>; the call \<open>mediaRecorder?.stop()\<close> is then skipped.
\<close>

definition recorder_cleanup :: "recorder \<Rightarrow> js_error + recorder" where
  "recorder_cleanup r =
     (case (if mediaRecorder r \<noteq> Some MrInactive then
              (case mediaRecorder r of
                 None \<Rightarrow> Inr r
               | Some st \<Rightarrow> (case mr_stop st of
                              Inl e \<Rightarrow> Inl e
                            | Inr st' \<Rightarrow> Inr (r\<lparr>mediaRecorder := Some st'\<rparr>)))
            else Inr r) of
        Inl e \<Rightarrow> Inl e
      | Inr r1 \<Rightarrow>
          (let r2 = (if rec_stream r1 then r1\<lparr>rec_stream := False\<rparr> else r1)
           in Inr (r2\<lparr>mediaRecorder := None, audioChunks := []\<rparr>)))"

definition getState :: "recorder \<Rightarrow> RecordingState option" where
  "getState r = mediaRecorder r"

section \<open>VoiceChatInterface (components/VoiceChat/VoiceChatInterface.tsx)\<close>

datatype VoiceState = Idle | Recording | Processing | Speaking | ErrorState

datatype MessageStatus = StatusSending | StatusSent | StatusError

record Message =
  m_id :: string
  m_content :: string
  m_sender :: Sender
  m_timestamp :: nat
  m_status :: "MessageStatus option"
  m_errorMessage :: "string option"

text \<open>The state of the component that the handlers below read and write.\<close>

record vci =
  messages :: "Message list"
  voiceState :: VoiceState
  transcription :: string
  recorder :: "recorder option"
  isRecording :: bool
  errorMessage :: "string option"
  silenceDetected :: bool
  audioChunksRef :: "Blob list"
  silenceDetectorRef :: bool
  recordingTimeoutRef :: bool

text \<open>
  What the handlers do to the outside, in order: requests to the backend, the calls of
  \<open>setVoiceState\<close>, timers armed (with what their callback does), calls on the audio
  element, the speech synthesis, the recorder and the detector, and the \<open>onSendMessage\<close>
  property.
\<close>

datatype timer_callback =
    ResetToIdle
  | SimulatedSpeechEnd
  | DelayedPlay
  | StartNewRecorder
  | MaxDurationStop

datatype effect =
    Request request
  | SetVoiceState VoiceState
  | SetTimeout nat timer_callback
  | AudioPlay string
  | SpeechSynthesisSpeak string
  | OnSendMessage string
  | DetectorInitialize
  | DetectorStart
  | DetectorStop
  | RecorderInitialize
  | RecorderStart nat

datatype play_outcome = PlayRejected | PlayedToEnd

text \<open>
  What the surroundings of the component answer: the identifiers and the time read from
  the clock, the backend, whether \<open>atob\<close> accepts the audio data, what \<open>audio.play()\<close>
  does, and what the browser supports and grants.
\<close>

record vci_env =
  userMessageId :: string
  aiResponseId :: string
  timestamp :: nat
  api :: backend
  atob_ok :: bool
  play :: play_outcome
  speech_supported :: bool
  recording_supported :: bool
  microphone_granted :: bool

text \<open>
  The message of a thrown value, as \<open>handleApiError\<close> extracts it (every value thrown in
  the modelled code is an \<open>Error\<close> object).
\<close>

fun error_message :: "js_error \<Rightarrow> string" where
  "error_message (Error m) = m"
| "error_message (TypeError m) = m"
| "error_message InvalidStateError = ''InvalidStateError''"

subsection \<open>Speech synthesis service, as the component uses it\<close>

text \<open>
  \<open>speak\<close> of services/audio/speech-synthesis.service.ts is synchronous: it throws when
  speech synthesis is not supported and otherwise returns the controller object made by
  \<open>createSpeechController\<close> for the utterance of the text. Nothing is spoken before the
  controller's \<open>start\<close> is called.
\<close>

datatype SpeechSynthesisController = Controller string

definition speak :: "bool \<Rightarrow> string \<Rightarrow> js_error + SpeechSynthesisController" where
  "speak supported txt =
     (if \<not> supported then Inl (Error ''Speech synthesis is not supported in this browser'')
      else Inr (Controller txt))"

text \<open>
  The controller has the members \<open>start\<close>, \<open>pause\<close>, \<open>resume\<close>, \<open>stop\<close>, \<open>onEnd\<close> and
  \<open>onError\<close>. It has no member \<open>then\<close>, so the call \<open>textToSpeech.speak(text).then(...)\<close>
  of the component calls \<open>undefined\<close>: a \<open>TypeError\<close>, thrown before the callback that
  holds \<open>speech.start()\<close> is ever registered.
\<close>

definition controller_then :: "SpeechSynthesisController \<Rightarrow> js_error" where
  "controller_then c = TypeError ''textToSpeech.speak(...).then is not a function''"

text \<open>
  \<open>fallbackToTextToSpeech\<close>: the error thrown, if any, the state and the effects.
\<close>

definition fallbackToTextToSpeech ::
  "vci_env \<Rightarrow> string \<Rightarrow> vci \<Rightarrow> js_error option \<times> vci \<times> effect list" where
  "fallbackToTextToSpeech env txt s =
     (if speech_supported env then
        (case speak (speech_supported env) txt of
           Inl e \<Rightarrow> (Some e, s, [])
         | Inr speech \<Rightarrow> (Some (controller_then speech), s, []))
      else (None, s, [SetTimeout 3000 SimulatedSpeechEnd]))"

text \<open>
  \<open>handleApiError(error, messageId)\<close>.
\<close>

definition handleApiError :: "js_error \<Rightarrow> string option \<Rightarrow> vci \<Rightarrow> vci \<times> effect list" where
  "handleApiError err messageId s =
     (let errorMsg = error_message err;
          s1 = s\<lparr>errorMessage := Some errorMsg, voiceState := ErrorState\<rparr>;
          s2 = (case messageId of
                  Some i \<Rightarrow>
                    if i \<noteq> [] then
                      s1\<lparr>messages := map (\<lambda>msg. if m_id msg = i
                                then msg\<lparr>m_status := Some StatusError, m_errorMessage := Some errorMsg\<rparr>
                                else msg) (messages s1)\<rparr>
                    else s1
                | None \<Rightarrow> s1)
      in (s2, [SetVoiceState ErrorState, SetTimeout 5000 ResetToIdle]))"

text \<open>
  The playing of the response, lines 197-235 of \<open>processAudioAndGetResponse\<close> (the same
  code is lines 333-371 of \<open>handleSendMessage\<close>). \<open>start_playback\<close> is the part that runs at
  once: with audio data it decodes them and arms the timer that will call \<open>audio.play()\<close>
  (fourth component: the decoded data waiting for that timer); a failure of \<open>atob\<close>, or
  no audio data, goes to \<open>fallbackToTextToSpeech\<close>, whose error is thrown on to the caller.
\<close>

definition start_playback ::
  "vci_env \<Rightarrow> string \<Rightarrow> string option \<Rightarrow> vci
     \<Rightarrow> js_error option \<times> vci \<times> effect list \<times> string option" where
  "start_playback env txt audioData s =
     (case (case audioData of Some d \<Rightarrow> if d \<noteq> [] then Some d else None | None \<Rightarrow> None) of
        Some d \<Rightarrow>
          if atob_ok env then (None, s, [SetTimeout 100 DelayedPlay], Some d)
          else (case fallbackToTextToSpeech env txt s of (e, s1, effs) \<Rightarrow> (e, s1, effs, None))
      | None \<Rightarrow>
          (case fallbackToTextToSpeech env txt s of (e, s1, effs) \<Rightarrow> (e, s1, effs, None)))"

text \<open>
  The timer's callback and what follows it: \<open>audio.play()\<close>; when the audio plays to its
  end, \<open>onended\<close> sets the state to idle; when \<open>play()\<close> is rejected, the \<open>catch\<close> callback
  calls \<open>fallbackToTextToSpeech\<close>, and an error thrown there is an unhandled rejection
  that reaches no handler of the component.
\<close>

definition delayed_play :: "vci_env \<Rightarrow> string \<Rightarrow> string \<Rightarrow> vci \<Rightarrow> vci \<times> effect list" where
  "delayed_play env txt d s =
     (case play env of
        PlayedToEnd \<Rightarrow>
          (s\<lparr>voiceState := Idle, audioChunksRef := []\<rparr>, [AudioPlay d, SetVoiceState Idle])
      | PlayRejected \<Rightarrow>
          (case fallbackToTextToSpeech env txt s of (e, s1, effs) \<Rightarrow> (s1, [AudioPlay d] @ effs)))"

text \<open>
  The end of both handlers after the response is in the chat: play the response; an
  error thrown at once goes to \<open>handleApiError\<close> with the identifier of the user's message;
  otherwise \<open>onSendMessage\<close> is called (taken to return normally, as the default property
  does), and the deferred playing follows.
\<close>

definition play_and_finish ::
  "vci_env \<Rightarrow> string \<Rightarrow> string \<Rightarrow> string \<Rightarrow> string option \<Rightarrow> vci \<Rightarrow> vci \<times> effect list" where
  "play_and_finish env userId sentText txt audioData s =
     (case start_playback env txt audioData s of
        (Some e, s1, effs, _) \<Rightarrow>
          (case handleApiError e (Some userId) s1 of (s2, effs2) \<Rightarrow> (s2, effs @ effs2))
      | (None, s1, effs, pending) \<Rightarrow>
          (case pending of
             None \<Rightarrow> (s1, effs @ [OnSendMessage sentText])
           | Some d \<Rightarrow>
               (case delayed_play env txt d s1 of
                  (s2, effs2) \<Rightarrow> (s2, effs @ [OnSendMessage sentText] @ effs2))))"

definition missing_key_error :: "vci \<Rightarrow> vci \<times> effect list" where
  "missing_key_error s =
     (s\<lparr>errorMessage :=
          Some ''OpenAI API key is required. Please set it in your environment variables.'',
        voiceState := ErrorState\<rparr>,
      [SetVoiceState ErrorState, SetTimeout 5000 ResetToIdle])"

text \<open>
  The history both handlers send: the messages of the render the handler belongs to,
  filtered, reduced to content and sender, and formatted.
\<close>

definition history_of :: "(Message \<Rightarrow> bool) \<Rightarrow> Message list \<Rightarrow> ChatMessage list" where
  "history_of keep msgs =
     formatConversationHistory
       (map (\<lambda>msg. \<lparr>sm_content = m_content msg, sm_sender = m_sender msg\<rparr>) (filter keep msgs))"

text \<open>
  \<open>processAudioAndGetResponse(audioBlob)\<close>, the audio pipeline; \<open>apiKey\<close> is the property
  of the component.
\<close>

definition processAudioAndGetResponse ::
  "vci_env \<Rightarrow> string \<Rightarrow> Blob \<Rightarrow> vci \<Rightarrow> vci \<times> effect list" where
  "processAudioAndGetResponse env apiKey audioBlob s =
     (if apiKey = [] then missing_key_error s
      else
        (let userMessage = \<lparr>m_id = userMessageId env, m_content = ''Processing your audio...'',
                             m_sender = SenderUser, m_timestamp = timestamp env,
                             m_status = Some StatusSending, m_errorMessage = None\<rparr>;
             s1 = s\<lparr>messages := messages s @ [userMessage], voiceState := Processing\<rparr>;
             formattedHistory =
               history_of (\<lambda>msg. m_status msg \<noteq> Some StatusSending \<and> m_status msg \<noteq> Some StatusError)
                 (messages s)
         in (case sendAudioToGPT4o (api env) audioBlob formattedHistory apiKey None of
               (reqs, Inl apiError) \<Rightarrow>
                 (case handleApiError apiError (Some (m_id userMessage)) s1 of
                    (s2, effs) \<Rightarrow> (s2, [SetVoiceState Processing] @ map Request reqs @ effs))
             | (reqs, Inr result) \<Rightarrow>
                 (let s2 = s1\<lparr>transcription := ar_transcription result,
                              messages := map (\<lambda>msg. if m_id msg = m_id userMessage
                                  then msg\<lparr>m_content := ar_transcription result,
                                           m_status := Some StatusSent\<rparr>
                                  else msg) (messages s1)\<rparr>;
                      aiResponse = \<lparr>m_id = aiResponseId env, m_content = ar_textResponse result,
                                     m_sender = SenderAi, m_timestamp = timestamp env,
                                     m_status = Some StatusSent, m_errorMessage = None\<rparr>;
                      s3 = s2\<lparr>messages := messages s2 @ [aiResponse], voiceState := Speaking\<rparr>
                  in (case play_and_finish env (m_id userMessage) (ar_transcription result)
                             (m_content aiResponse) (ar_audioData result) s3 of
                        (s4, effs) \<Rightarrow>
                          (s4, [SetVoiceState Processing] @ map Request reqs
                               @ [SetVoiceState Speaking] @ effs))))))"

text \<open>
  \<open>handleSendMessage(message)\<close>, the text pipeline. It calls \<open>sendMessageToGPT4o\<close> of the
  service with the options \<open>{ voice: "alloy", format: "wav" }\<close>.
\<close>

definition handleSendMessage ::
  "vci_env \<Rightarrow> string \<Rightarrow> string \<Rightarrow> vci \<Rightarrow> vci \<times> effect list" where
  "handleSendMessage env apiKey message s =
     (if trim message = [] then (s, [])
      else if apiKey = [] then missing_key_error s
      else
        (let userMessage = \<lparr>m_id = userMessageId env, m_content = message,
                             m_sender = SenderUser, m_timestamp = timestamp env,
                             m_status = Some StatusSending, m_errorMessage = None\<rparr>;
             s1 = s\<lparr>messages := messages s @ [userMessage], voiceState := Processing\<rparr>;
             formattedHistory = history_of (\<lambda>msg. m_status msg \<noteq> Some StatusError) (messages s)
         in (case service_sendMessageToGPT4o (api env) message formattedHistory apiKey
                   (Some \<lparr>opt_voice = Some ''alloy'', opt_format = Some ''wav''\<rparr>) of
               (reqs, Inl apiError) \<Rightarrow>
                 (case handleApiError apiError (Some (m_id userMessage)) s1 of
                    (s2, effs) \<Rightarrow> (s2, [SetVoiceState Processing] @ map Request reqs @ effs))
             | (reqs, Inr result) \<Rightarrow>
                 (let s2 = s1\<lparr>messages := map (\<lambda>msg. if m_id msg = m_id userMessage
                                  then msg\<lparr>m_status := Some StatusSent\<rparr> else msg) (messages s1)\<rparr>;
                      aiResponse = \<lparr>m_id = aiResponseId env, m_content = resp_text result,
                                     m_sender = SenderAi, m_timestamp = timestamp env,
                                     m_status = Some StatusSent, m_errorMessage = None\<rparr>;
                      s3 = s2\<lparr>messages := messages s2 @ [aiResponse], voiceState := Speaking\<rparr>
                  in (case play_and_finish env (m_id userMessage) message
                             (m_content aiResponse) (resp_audioData result) s3 of
                        (s4, effs) \<Rightarrow>
                          (s4, [SetVoiceState Processing] @ map Request reqs
                               @ [SetVoiceState Speaking] @ effs))))))"



section \<open>VoiceChat (components/voice-chat/VoiceChat.tsx) and its hooks\<close>

text \<open>
  The state the component gets from \<open>useVoiceState\<close>, \<open>useAudioRecorder\<close> and
  \<open>useChatHistory\<close>.
\<close>

record voice_chat =
  vc_state :: VoiceState
  vc_error :: "string option"
  vc_isRecording :: bool
  vc_messages :: "Message list"

text \<open>\<open>useVoiceState\<close>: \<open>setState\<close>, \<open>setError\<close> and \<open>canRecord\<close>.\<close>

definition setState :: "VoiceState \<Rightarrow> voice_chat \<Rightarrow> voice_chat" where
  "setState newState s =
     (let s1 = s\<lparr>vc_state := newState\<rparr>
      in if newState \<noteq> ErrorState then s1\<lparr>vc_error := None\<rparr> else s1)"

definition setError :: "string \<Rightarrow> voice_chat \<Rightarrow> voice_chat" where
  "setError message s = s\<lparr>vc_error := Some message, vc_state := ErrorState\<rparr>"


text \<open>
  The calls the component makes on its hooks and on the backend. \<open>PlayResponse\<close> is the
  call of the component's \<open>playResponse\<close>, which is not followed further here.
\<close>

datatype vc_effect =
    StartRecording nat
  | StopDetection
  | StartDetection
  | VcRequest request
  | PlayResponse "string option" string


text \<open>
  \<open>chatHistory.addMessage\<close> and \<open>chatHistory.updateMessage\<close> of \<open>useChatHistory\<close>.
\<close>

definition addMessage ::
  "string \<Rightarrow> nat \<Rightarrow> string \<Rightarrow> Sender \<Rightarrow> MessageStatus option \<Rightarrow> voice_chat \<Rightarrow> voice_chat" where
  "addMessage newId t c sndr st s =
     s\<lparr>vc_messages := vc_messages s @
          [\<lparr>m_id = newId, m_content = c, m_sender = sndr, m_timestamp = t,
            m_status = Some (case st of Some x \<Rightarrow> x | None \<Rightarrow> StatusSent),
            m_errorMessage = None\<rparr>]\<rparr>"

definition updateMessage ::
  "string \<Rightarrow> string option \<Rightarrow> MessageStatus option \<Rightarrow> voice_chat \<Rightarrow> voice_chat" where
  "updateMessage i c st s =
     s\<lparr>vc_messages := map (\<lambda>msg. if m_id msg = i
          then msg\<lparr>m_content := (case c of Some x \<Rightarrow> x | None \<Rightarrow> m_content msg),
                   m_status := (case st of Some x \<Rightarrow> Some x | None \<Rightarrow> m_status msg)\<rparr>
          else msg) (vc_messages s)\<rparr>"

text \<open>
  \<open>handleSendMessage\<close> of VoiceChat; \<open>openAI.sendMessage\<close> formats the history and calls
  \<open>sendMessageToGPT4o\<close> of the service with the key of the component.
\<close>

definition vc_handleSendMessage ::
  "vci_env \<Rightarrow> string \<Rightarrow> string \<Rightarrow> voice_chat \<Rightarrow> voice_chat \<times> vc_effect list" where
  "vc_handleSendMessage env apiKey message s =
     (if trim message = [] then (s, [])
      else
        (let s1 = setState Processing s;
             s2 = addMessage (userMessageId env) (timestamp env) message SenderUser
                    (Some StatusSending) s1;
             messageHistory =
               map (\<lambda>msg. \<lparr>sm_content = m_content msg, sm_sender = m_sender msg\<rparr>)
                 (filter (\<lambda>msg. m_status msg \<noteq> Some StatusSending \<and> m_status msg \<noteq> Some StatusError)
                    (vc_messages s))
         in (case service_sendMessageToGPT4o (api env) message
                   (formatConversationHistory messageHistory) apiKey None of
               (reqs, Inl e) \<Rightarrow> (setError (error_message e) s2, map VcRequest reqs)
             | (reqs, Inr result) \<Rightarrow>
                 (let s3 = updateMessage (userMessageId env) None (Some StatusSent) s2;
                      s4 = addMessage (aiResponseId env) (timestamp env) (resp_text result) SenderAi
                             (Some StatusSent) s3
                  in (s4, map VcRequest reqs
                          @ [PlayResponse (resp_audioData result) (resp_text result)])))))"

section \<open>Auxiliary definitions for the statements\<close>

text \<open>What \<open>cleanup\<close> of the detector leaves of the closure variables.\<close>

definition released :: "detector \<Rightarrow> detector" where
  "released d = d\<lparr>microphone := False, analyzer := False, audioContext := None, stream := False,
      isInitialized := False, silenceDetectedFlag := False\<rparr>"

text \<open>The error of the audio workflow for an empty transcription.\<close>

definition emptyTranscriptionError :: js_error where
  "emptyTranscriptionError = Error ''Could not transcribe audio. Please try speaking more clearly.''"

text \<open>The state of VoiceChatInterface after mounting without initial messages.\<close>

definition vci_initial :: vci where
  "vci_initial = \<lparr>messages = [], voiceState = Idle, transcription = [], recorder = None,
     isRecording = False, errorMessage = None, silenceDetected = False, audioChunksRef = [],
     silenceDetectorRef = False, recordingTimeoutRef = False\<rparr>"

text \<open>
  Concrete inputs for the examples: backends (one that transcribes to a blank, one that
  cannot be reached, one that answers with a transcription and an audio response, one that
  answers with a text content and a blank transcript), the
  surroundings of the component (identifiers from the clock; \<open>atob\<close> succeeds,
  \<open>audio.play()\<close> is rejected, speech synthesis is supported), a recorded blob, two chat
  entries and a state showing an error.
\<close>

definition blank_backend :: backend where
  "blank_backend = \<lparr>transcription_endpoint = (\<lambda>_. Ok [CHR '' '', CHR 0xA0]),
     chat_endpoint = (\<lambda>_. OkBadJson)\<rparr>"

definition example_env :: "backend \<Rightarrow> vci_env" where
  "example_env b = \<lparr>userMessageId = ''1700000000000'', aiResponseId = ''1700000000001'',
     timestamp = 1700000000000, api = b, atob_ok = True, play = PlayRejected,
     speech_supported = True, recording_supported = True, microphone_granted = True\<rparr>"

definition webm_blob :: Blob where
  "webm_blob = \<lparr>blob_type = ''audio/webm'', blob_size = 2048\<rparr>"

definition welcome_message :: Message where
  "welcome_message = \<lparr>m_id = ''welcome'', m_content = ''Hello!'', m_sender = SenderAi, m_timestamp = 0,
     m_status = Some StatusSent, m_errorMessage = None\<rparr>"

definition pending_audio :: Message where
  "pending_audio = \<lparr>m_id = ''1699999999999'', m_content = ''Processing your audio...'',
     m_sender = SenderUser, m_timestamp = 1699999999999, m_status = Some StatusSending,
     m_errorMessage = None\<rparr>"

definition offline_backend :: backend where
  "offline_backend = \<lparr>transcription_endpoint = (\<lambda>_. Rejected (TypeError ''Failed to fetch'')),
     chat_endpoint = (\<lambda>_. Rejected (TypeError ''Failed to fetch''))\<rparr>"

definition audio_backend :: backend where
  "audio_backend = \<lparr>transcription_endpoint = (\<lambda>_. Ok ''hi''),
     chat_endpoint = (\<lambda>_. Ok (Some [\<lparr>role = RoleAssistant, content = None,
        audio = Some \<lparr>audio_transcript = Some ''Hello there'',
                        audio_data = Some ''UklGRg==''\<rparr>\<rparr>]))\<rparr>"

definition text_backend :: backend where
  "text_backend = \<lparr>transcription_endpoint = (\<lambda>_. Ok ''hi''),
     chat_endpoint = (\<lambda>_. Ok (Some [\<lparr>role = RoleAssistant, content = Some '' Hi there. '',
        audio = Some \<lparr>audio_transcript = Some [CHR 0xA0], audio_data = None\<rparr>\<rparr>]))\<rparr>"


section \<open>Properties of the silence detector\<close>

declare step.simps [simp del]

lemma run_snoc: "run options tf (as @ [a]) w = step options tf (run options tf as w) a"
  by (simp add: run_def)

lemma run_append: "run options tf (as @ bs) w = run options tf bs (run options tf as w)"
  by (simp add: run_def)

lemma run_Cons: "run options tf (a # as) w = run options tf as (step options tf w a)"
  by (simp add: run_def)

lemma run_Nil: "run options tf [] w = w"
  by (simp add: run_def)

lemma start_new_world: "snd (start (new_world True)) = quiet_world 0 0"
  by (simp add: start_def initialize_def new_world_def createSilenceDetector_def
      quiet_world_def Let_def)

lemma fire_split:
  assumes "timeouts w = ds @ rs"
    and "\<forall>t \<in> set ds. p (t_due t)" and "\<forall>t \<in> set rs. \<not> p (t_due t)"
  shows "fire p w = (fire_list ds (w\<lparr>timeouts := rs\<rparr>))\<lparr>now := now w\<rparr>"
proof -
  from assms have "filter (\<lambda>t. p (t_due t)) (timeouts w) = ds"
    by (simp add: filter_empty_conv filter_id_conv)
  moreover from assms have "filter (\<lambda>t. \<not> p (t_due t)) (timeouts w) = rs"
    by (simp add: filter_empty_conv filter_id_conv)
  ultimately show ?thesis by (simp add: fire_def Let_def)
qed

lemma fire_none:
  assumes "\<forall>t \<in> set (timeouts w). \<not> p (t_due t)"
  shows "fire p w = w"
  using fire_split [of w "[]" "timeouts w" p] assms by simp

lemma loud_step:
  "step defaultOptions tf (quiet_world T 0) (Sample (1/2)) = quiet_world (T + 100) 0"
proof -
  have f: "\<And>p w. timeouts w = [] \<Longrightarrow> fire p w = w" by (simp add: fire_none)
  show ?thesis
    by (cases tf) (simp_all add: step.simps f quiet_world_def defaultOptions_def tick_def
        interval_callback_def isAudioSilent_def handleSpeech_def Let_def)
qed

lemma loud_run:
  "run defaultOptions tf (replicate n (Sample (1/2))) (quiet_world T 0)
     = quiet_world (T + n * 100) 0"
proof (induction n arbitrary: T)
  case 0
  show ?case by (simp add: run_Nil)
next
  case (Suc n)
  show ?case by (simp add: run_Cons loud_step Suc.IH add.assoc)
qed

text \<open>The interval callback on a sample below the threshold arms one more timeout.\<close>

lemma quiet_tick:
  assumes "timeouts w = map (quiet_timeout T) [a..<k]" and "a \<le> k"
    and "now w = T + k * 100 + 100" and "next_handle w = 2 + k" and "intervals w = [1]"
    and "det w = det (quiet_world T k)" and "x < 5 / 100"
  shows "tick defaultOptions x w
     = w\<lparr>timeouts := map (quiet_timeout T) [a..<Suc k], next_handle := 2 + Suc k,
          det := det (quiet_world T (Suc k))\<rparr>"
  using assms
  by (simp add: quiet_world_def quiet_timeout_def defaultOptions_def tick_def
        interval_callback_def isAudioSilent_def handleSilence_def Let_def)

lemma quiet_step_early:
  assumes "k < 50" and "x < 5 / 100"
  shows "step defaultOptions tf (quiet_world T k) (Sample x) = quiet_world T (Suc k)"
proof -
  let ?w = "quiet_world T k"
  let ?t = "T + k * 100 + 100"
  have nd: "\<forall>t \<in> set (timeouts (?w\<lparr>now := ?t\<rparr>)). \<not> t_due t \<le> ?t"
    "\<forall>t \<in> set (timeouts ?w). \<not> t_due t < ?t"
    using assms by (auto simp: quiet_world_def quiet_timeout_def)
  have f1: "fire (\<lambda>d. d < ?t) ?w = ?w"
    using nd(2) by (rule fire_none)
  have f2: "fire (\<lambda>d. d \<le> ?t) (?w\<lparr>now := ?t\<rparr>) = ?w\<lparr>now := ?t\<rparr>"
    using nd(1) by (rule fire_none)
  have tk: "tick defaultOptions x (?w\<lparr>now := ?t\<rparr>) = quiet_world T (Suc k)"
    using assms
    by (subst quiet_tick [where T = T and k = k and a = 0]) (simp_all add: quiet_world_def)
  have nd3: "\<forall>t \<in> set (timeouts (quiet_world T (Suc k))). \<not> t_due t \<le> ?t"
    using assms by (auto simp: quiet_world_def quiet_timeout_def)
  have f3: "fire (\<lambda>d. d \<le> ?t) (quiet_world T (Suc k)) = quiet_world T (Suc k)"
    using nd3 by (rule fire_none)
  have nw: "now ?w = T + k * 100" by (simp add: quiet_world_def)
  have ci: "checkInterval defaultOptions = 100" by (simp add: defaultOptions_def)
  show ?thesis
    by (cases tf) (simp_all add: step.simps Let_def nw ci f1 f2 tk f3)
qed

text \<open>The state in which the timeout of tick \<open>m\<close> has just fired at tick \<open>50 + m\<close>.\<close>

lemma fire_due_one:
  assumes "timeouts w = map (quiet_timeout T) [m..<k]" and "m < k"
    and "now w = T + m * 100 + 5100" and "calls w = map (quiet_call T) [0..<m]"
    and "isRunning (det w)"
  shows "fire (\<lambda>d. d \<le> T + m * 100 + 5100) w
     = w\<lparr>timeouts := map (quiet_timeout T) [Suc m..<k], calls := map (quiet_call T) [0..<Suc m]\<rparr>"
proof -
  have u: "[m..<k] = m # [Suc m..<k]" using assms(2) by (simp add: upt_conv_Cons)
  have ts: "timeouts w = [quiet_timeout T m] @ map (quiet_timeout T) [Suc m..<k]"
    using assms(1) by (simp add: u)
  have "fire (\<lambda>d. d \<le> T + m * 100 + 5100) w
      = (fire_list [quiet_timeout T m] (w\<lparr>timeouts := map (quiet_timeout T) [Suc m..<k]\<rparr>))\<lparr>now := now w\<rparr>"
    by (rule fire_split [OF ts]) (auto simp: quiet_timeout_def)
  also have "\<dots> = w\<lparr>timeouts := map (quiet_timeout T) [Suc m..<k], calls := map (quiet_call T) [0..<Suc m]\<rparr>"
    using assms(3-5)
    by (simp add: quiet_timeout_def quiet_call_def silence_timer_callback_def invoke_def)
  finally show ?thesis .
qed

lemma quiet_step_late:
  assumes "x < 5 / 100"
  shows "step defaultOptions tf (quiet_world T (50 + m)) (Sample x) = quiet_world T (Suc (50 + m))"
proof -
  let ?k = "50 + m"
  let ?w = "quiet_world T ?k"
  let ?t = "T + m * 100 + 5100"
  have nw: "now ?w + checkInterval defaultOptions = ?t"
    by (simp add: quiet_world_def defaultOptions_def)
  have nd: "\<forall>t \<in> set (timeouts ?w). \<not> t_due t < ?t"
    by (auto simp: quiet_world_def quiet_timeout_def)
  have f1: "fire (\<lambda>d. d < ?t) ?w = ?w" using nd by (rule fire_none)
  show ?thesis
  proof (cases tf)
    case True
    have f2: "fire (\<lambda>d. d \<le> ?t) (?w\<lparr>now := ?t\<rparr>)
       = ?w\<lparr>now := ?t, timeouts := map (quiet_timeout T) [Suc m..<?k],
             calls := map (quiet_call T) [0..<Suc m]\<rparr>"
      by (subst fire_due_one [where T = T and m = m and k = ?k]) (simp_all add: quiet_world_def)
    have tk: "tick defaultOptions x (?w\<lparr>now := ?t, timeouts := map (quiet_timeout T) [Suc m..<?k],
             calls := map (quiet_call T) [0..<Suc m]\<rparr>) = quiet_world T (Suc ?k)"
      using assms
      by (subst quiet_tick [where T = T and k = ?k and a = "Suc m"]) (simp_all add: quiet_world_def)
    have "step defaultOptions tf ?w (Sample x)
        = tick defaultOptions x (fire (\<lambda>d. d \<le> ?t) ((fire (\<lambda>d. d < ?t) ?w)\<lparr>now := ?t\<rparr>))"
      by (simp only: step.simps Let_def nw True if_True)
    also have "\<dots> = quiet_world T (Suc ?k)"
      by (simp only: f1 f2 tk)
    finally show ?thesis .
  next
    case False
    have tk: "tick defaultOptions x (?w\<lparr>now := ?t\<rparr>)
       = ?w\<lparr>now := ?t, timeouts := map (quiet_timeout T) [m..<Suc ?k], next_handle := 2 + Suc ?k,
          det := det (quiet_world T (Suc ?k))\<rparr>"
      using assms
      by (subst quiet_tick [where T = T and k = ?k and a = m]) (simp_all add: quiet_world_def)
    have f2: "fire (\<lambda>d. d \<le> ?t) (?w\<lparr>now := ?t, timeouts := map (quiet_timeout T) [m..<Suc ?k],
          next_handle := 2 + Suc ?k, det := det (quiet_world T (Suc ?k))\<rparr>) = quiet_world T (Suc ?k)"
      by (subst fire_due_one [where T = T and m = m and k = "Suc ?k"]) (simp_all add: quiet_world_def)
    have "step defaultOptions tf ?w (Sample x)
        = fire (\<lambda>d. d \<le> ?t) (tick defaultOptions x ((fire (\<lambda>d. d < ?t) ?w)\<lparr>now := ?t\<rparr>))"
      by (simp only: step.simps Let_def nw False if_False)
    also have "\<dots> = quiet_world T (Suc ?k)"
      by (simp only: f1 f2 tk)
    finally show ?thesis .
  qed
qed

lemma quiet_step:
  assumes "x < 5 / 100"
  shows "step defaultOptions tf (quiet_world T k) (Sample x) = quiet_world T (Suc k)"
proof (cases "k < 50")
  case True
  then show ?thesis using assms by (rule quiet_step_early)
next
  case False
  then have "k = 50 + (k - 50)" by simp
  then show ?thesis using quiet_step_late [OF assms, of tf T "k - 50"] by simp
qed

lemma quiet_run:
  "run defaultOptions tf (replicate k (Sample (1/100))) (quiet_world T 0) = quiet_world T k"
proof (induction k)
  case 0
  show ?case by (simp add: run_Nil)
next
  case (Suc k)
  have "replicate (Suc k) (Sample (1/100)) = replicate k (Sample (1/100)) @ [Sample (1/100)]"
    by (simp add: replicate_append_same)
  with Suc show ?case by (simp add: run_snoc quiet_step del: replicate_Suc)
qed



lemma scenario_world:
  "run defaultOptions tf
     ([Start] @ replicate n (Sample (1/2)) @ replicate k (Sample (1/100))) (new_world True)
   = quiet_world (n * 100) k"
proof -
  have s: "step defaultOptions tf (new_world True) Start = quiet_world 0 0"
    by (simp add: step.simps start_new_world)
  show ?thesis
    by (simp add: run_append run_Cons run_Nil s loud_run quiet_run)
qed

text \<open>
  In one run, \<open>k\<close> consecutive samples below the threshold produce \<open>k - 50\<close> calls of
  \<open>onSilenceDetected\<close>: one for every such sample that lies 5000 ms back.
\<close>

lemma silence_calls_per_sample:
  "length (silence_calls (run defaultOptions tf ([Start] @ replicate k (Sample (1/100)))
      (new_world True))) = k - 50"
proof -
  have "run defaultOptions tf ([Start] @ replicate k (Sample (1/100))) (new_world True)
      = quiet_world 0 k"
    using scenario_world [of tf 0 k] by simp
  then show ?thesis
    by (simp add: silence_calls_def quiet_world_def quiet_call_def)
qed

subsection \<open>C2: the scenario of the default configuration\<close>




text \<open>Time passing over a stopped detector.\<close>

lemma idle_step:
  assumes "intervals w = []"
    and "\<forall>t \<in> set (timeouts w). now w + checkInterval options < t_due t"
  shows "step options tf w (Sample x) = w\<lparr>now := now w + checkInterval options\<rparr>"
proof -
  let ?t = "now w + checkInterval options"
  have f1: "fire (\<lambda>d. d < ?t) w = w"
    using assms(2) by (intro fire_none) auto
  have f2: "fire (\<lambda>d. d \<le> ?t) (w\<lparr>now := ?t\<rparr>) = w\<lparr>now := ?t\<rparr>"
    using assms(2) by (intro fire_none) auto
  have tk: "tick options x (w\<lparr>now := ?t\<rparr>) = w\<lparr>now := ?t\<rparr>"
    using assms(1) by (simp add: tick_def)
  show ?thesis
    by (cases tf) (simp_all add: step.simps Let_def f1 f2 tk)
qed

lemma idle_run:
  assumes "intervals w = []"
    and "\<forall>t \<in> set (timeouts w). now w + j * checkInterval options < t_due t"
  shows "run options tf (replicate j (Sample x)) w = w\<lparr>now := now w + j * checkInterval options\<rparr>"
  using assms(2)
proof (induction j)
  case 0
  show ?case by (simp add: run_Nil)
next
  case (Suc j)
  have r: "replicate (Suc j) (Sample x) = replicate j (Sample x) @ [Sample x]"
    by (simp add: replicate_append_same)
  have p: "\<forall>t \<in> set (timeouts w). now w + j * checkInterval options < t_due t"
  proof
    fix t
    assume "t \<in> set (timeouts w)"
    with Suc.prems have "now w + Suc j * checkInterval options < t_due t" by blast
    then show "now w + j * checkInterval options < t_due t" by simp
  qed
  have ih: "run options tf (replicate j (Sample x)) w = w\<lparr>now := now w + j * checkInterval options\<rparr>"
    using p by (rule Suc.IH)
  let ?w' = "w\<lparr>now := now w + j * checkInterval options\<rparr>"
  have q: "\<forall>t \<in> set (timeouts ?w'). now ?w' + checkInterval options < t_due t"
  proof
    fix t
    assume "t \<in> set (timeouts ?w')"
    then have "t \<in> set (timeouts w)" by simp
    with Suc.prems have "now w + Suc j * checkInterval options < t_due t" by blast
    then show "now ?w' + checkInterval options < t_due t" by (simp add: add.commute)
  qed
  have "step options tf ?w' (Sample x) = ?w'\<lparr>now := now ?w' + checkInterval options\<rparr>"
    using assms(1) q by (intro idle_step) simp_all
  then show ?case by (simp only: r run_snoc ih) (simp add: add.assoc add.commute)
qed

subsection \<open>C1: at most one call per run, none after stop\<close>

text \<open>
  C1 does not hold of the service. In the default configuration, 52 samples below the
  threshold in one run produce two \<open>onSilenceDetected\<close> calls; and after two such samples
  and \<open>stop()\<close>, the timeout armed by the first sample still fires and calls the listener
  while the detector is stopped (third component \<open>False\<close>). Both hold for either order of
  a timeout and a tick that fall on the same instant.
\<close>

theorem C1_silence_called_twice_and_after_stop:
  "calls (run defaultOptions True ([Start] @ replicate 52 (Sample (1/100))) (new_world True))
     = [(5100, onSilenceDetected, True), (5200, onSilenceDetected, True)]
   \<and> calls (run defaultOptions False ([Start] @ replicate 52 (Sample (1/100))) (new_world True))
     = [(5100, onSilenceDetected, True), (5200, onSilenceDetected, True)]
   \<and> calls (run defaultOptions True
        ([Start, Sample (1/100), Sample (1/100), Stop] @ replicate 49 (Sample 0)) (new_world True))
     = [(5100, onSilenceDetected, False)]
   \<and> calls (run defaultOptions False
        ([Start, Sample (1/100), Sample (1/100), Stop] @ replicate 49 (Sample 0)) (new_world True))
     = [(5100, onSilenceDetected, False)]"
proof -
  have twice: "calls (run defaultOptions tf ([Start] @ replicate 52 (Sample (1/100))) (new_world True))
     = [(5100, onSilenceDetected, True), (5200, onSilenceDetected, True)]" for tf
  proof -
    have u: "[0..<2] = [0, Suc 0]" by (simp add: numeral_2_eq_2)
    show ?thesis
      using scenario_world [of tf 0 52] by (simp add: quiet_world_def quiet_call_def u)
  qed
  have after: "calls (run defaultOptions tf
        ([Start, Sample (1/100), Sample (1/100), Stop] @ replicate 49 (Sample 0)) (new_world True))
     = [(5100, onSilenceDetected, False)]" for tf
  proof -
    define w where "w = stop (quiet_world 0 2)"
    have w: "w = \<lparr>det = \<lparr>audioContext = Some CtxRunning, analyzer = True, microphone = True,
        stream = True, checkIntervalTimer = None, silenceTimer = None, isSilent = False,
        isInitialized = True, isRunning = False, silenceDetectedFlag = False\<rparr>,
      now = 200, timeouts = [quiet_timeout 0 0], intervals = [],
      next_handle = 4, mic_granted = True, calls = []\<rparr>"
      by (simp add: w_def stop_def quiet_world_def quiet_timeout_def clearTimeout_def
          clearInterval_def Let_def numeral_2_eq_2)
    have "run defaultOptions tf [Start, Sample (1/100), Sample (1/100)] (new_world True)
        = quiet_world 0 2"
      using scenario_world [of tf 0 2] by (simp add: numeral_2_eq_2)
    then have a: "run defaultOptions tf [Start, Sample (1/100), Sample (1/100), Stop] (new_world True) = w"
      using run_snoc [of defaultOptions tf "[Start, Sample (1/100), Sample (1/100)]" Stop "new_world True"]
      by (simp add: step.simps w_def)
    have b: "run defaultOptions tf (replicate 48 (Sample 0)) w = w\<lparr>now := 5000\<rparr>"
      using idle_run [of w 48 defaultOptions tf 0]
      by (simp add: w quiet_timeout_def defaultOptions_def)
    have c: "calls (step defaultOptions tf (w\<lparr>now := 5000\<rparr>) (Sample 0)) = [(5100, onSilenceDetected, False)]"
      by (cases tf) (simp_all add: w step.simps quiet_timeout_def defaultOptions_def fire_def tick_def
          silence_timer_callback_def invoke_def Let_def)
    have "replicate (Suc 48) (Sample 0) = replicate 48 (Sample 0) @ [Sample 0]"
      by (simp only: replicate_Suc replicate_append_same)
    moreover have "Suc 48 = 49" by simp
    ultimately have "replicate 49 (Sample 0) = replicate 48 (Sample 0) @ [Sample 0]"
      by (simp only:)
    then have "run defaultOptions tf
        ([Start, Sample (1/100), Sample (1/100), Stop] @ replicate 49 (Sample 0)) (new_world True)
        = step defaultOptions tf (w\<lparr>now := 5000\<rparr>) (Sample 0)"
      using run_append [of defaultOptions tf "[Start, Sample (1/100), Sample (1/100), Stop]"
          "replicate 49 (Sample 0)" "new_world True"]
      by (simp only: a run_snoc b)
    then show ?thesis by (simp only: c)
  qed
  show ?thesis by (simp only: twice after simp_thms)
qed

subsection \<open>C3: the speech listener\<close>

text \<open>
  The closure variable \<open>isSilent\<close> is assigned only in \<open>start\<close>, which sets it to false; so
  \<open>handleSpeech\<close> always sees \<open>state.isSilent = false\<close> and never calls the listener.
\<close>

lemma never_quiet_fire_list:
  "never_quiet w \<Longrightarrow> never_quiet (fire_list ts w)"
proof (induction ts arbitrary: w)
  case Nil
  then show ?case by simp
next
  case (Cons t ts)
  have "never_quiet (silence_timer_callback (t_state t) (w\<lparr>now := t_due t\<rparr>))"
    using Cons.prems
    by (simp add: never_quiet_def silence_timer_callback_def invoke_def speech_calls_def)
  then show ?case by (simp add: Cons.IH)
qed

lemma never_quiet_fire: "never_quiet w \<Longrightarrow> never_quiet (fire p w)"
proof -
  assume a: "never_quiet w"
  have "never_quiet (w\<lparr>timeouts := ts\<rparr>)" for ts
    using a by (simp add: never_quiet_def speech_calls_def)
  then have "never_quiet (fire_list ds (w\<lparr>timeouts := ts\<rparr>))" for ds ts
    by (rule never_quiet_fire_list)
  then show ?thesis
    by (simp add: fire_def Let_def never_quiet_def speech_calls_def)
qed

lemma never_quiet_interval_callback:
  "never_quiet w \<Longrightarrow> never_quiet (interval_callback options x w)"
  by (simp add: never_quiet_def interval_callback_def handleSilence_def handleSpeech_def
      invoke_def speech_calls_def Let_def)

lemma never_quiet_tick: "never_quiet w \<Longrightarrow> never_quiet (tick options x w)"
proof -
  have "never_quiet w \<Longrightarrow> never_quiet (fold (\<lambda>_. interval_callback options x) is w)"
    for "is" :: "nat list" and w
    by (induction "is" arbitrary: w) (simp_all add: never_quiet_interval_callback)
  then show "never_quiet w \<Longrightarrow> never_quiet (tick options x w)"
    by (simp add: tick_def)
qed

lemma never_quiet_start: "never_quiet w \<Longrightarrow> never_quiet (snd (start w))"
  by (simp add: never_quiet_def start_def initialize_def invoke_def clearTimeout_def
      speech_calls_def Let_def split: option.splits)

lemma never_quiet_stop: "never_quiet w \<Longrightarrow> never_quiet (stop w)"
  by (simp add: never_quiet_def stop_def clearTimeout_def clearInterval_def
      speech_calls_def Let_def split: option.splits)

lemma never_quiet_cleanup: "never_quiet w \<Longrightarrow> cleanup w = Inr w' \<Longrightarrow> never_quiet w'"
  using never_quiet_stop [of w]
  by (auto simp: never_quiet_def cleanup_def speech_calls_def Let_def
      split: option.splits sum.splits if_splits)

lemma never_quiet_step: "never_quiet w \<Longrightarrow> never_quiet (step options tf w a)"
proof (cases a)
  case Start
  then show "never_quiet w \<Longrightarrow> ?thesis" by (simp add: step.simps never_quiet_start)
next
  case Stop
  then show "never_quiet w \<Longrightarrow> ?thesis" by (simp add: step.simps never_quiet_stop)
next
  case Cleanup
  then show "never_quiet w \<Longrightarrow> ?thesis"
    by (auto simp: step.simps split: sum.splits dest: never_quiet_cleanup)
next
  case (Sample x)
  assume a: "never_quiet w"
  let ?t = "now w + checkInterval options"
  have "never_quiet ((fire (\<lambda>d. d < ?t) w)\<lparr>now := ?t\<rparr>)"
    using never_quiet_fire [OF a, of "\<lambda>d. d < ?t"] by (simp add: never_quiet_def speech_calls_def)
  then show ?thesis
    using Sample by (simp add: step.simps Let_def never_quiet_fire never_quiet_tick)
qed

lemma never_quiet_run: "never_quiet w \<Longrightarrow> never_quiet (run options tf as w)"
proof (induction as arbitrary: w)
  case Nil
  then show ?case by (simp add: run_Nil)
next
  case (Cons a as)
  then show ?case by (simp add: run_Cons never_quiet_step)
qed

lemma speech_listener_never_called:
  "speech_calls (run options tf as (new_world granted)) = []"
proof -
  have "never_quiet (new_world granted)"
    by (simp add: never_quiet_def new_world_def createSilenceDetector_def speech_calls_def)
  then have "never_quiet (run options tf as (new_world granted))"
    by (rule never_quiet_run)
  then show ?thesis by (simp add: never_quiet_def)
qed

text \<open>
  C3 does not hold of the service: a sample below the threshold followed by a sample above
  it produces no \<open>onSpeechDetected\<close> call, and the detector's \<open>isSilent\<close> is still false
  after the sample below the threshold.
\<close>

theorem C3_speech_listener_not_called:
  "speech_calls (run defaultOptions True [Start, Sample (1/100), Sample (1/2)] (new_world True)) = []
   \<and> speech_calls (run defaultOptions False [Start, Sample (1/100), Sample (1/2)] (new_world True)) = []
   \<and> \<not> isSilent (det (run defaultOptions True [Start, Sample (1/100)] (new_world True)))
   \<and> \<not> isSilent (det (run defaultOptions False [Start, Sample (1/100)] (new_world True)))"
proof -
  have "run defaultOptions tf [Start, Sample (1/100)] (new_world True) = quiet_world 0 1" for tf
    using scenario_world [of tf 0 1] by simp
  then show ?thesis
    by (simp add: speech_listener_never_called quiet_world_def)
qed

section \<open>Cleanup of the recorder and of the detector\<close>

lemma recorder_cleanup_result:
  "recorder_cleanup r = Inr \<lparr>mediaRecorder = None, audioChunks = [], rec_stream = False\<rparr>"
proof (cases "mediaRecorder r")
  case None
  then show ?thesis by (simp add: recorder_cleanup_def Let_def)
next
  case (Some st)
  then show ?thesis
    by (cases st) (simp_all add: recorder_cleanup_def mr_stop_def Let_def)
qed

text \<open>What \<open>stop\<close> leaves: the detector is not running and holds no timer.\<close>

lemma stop_det:
  "det (stop w) = (det w)\<lparr>isRunning := False, checkIntervalTimer := None, silenceTimer := None\<rparr>"
  by (cases "checkIntervalTimer (det w)"; cases "silenceTimer (det w)")
     (simp_all add: stop_def clearTimeout_def clearInterval_def Let_def)

lemma stop_stopped:
  assumes "\<not> isRunning (det w)" and "checkIntervalTimer (det w) = None"
    and "silenceTimer (det w) = None"
  shows "stop w = w"
  using assms by (simp add: stop_def Let_def)

lemma cleanup_result: "cleanup w = Inr ((stop w)\<lparr>det := released (det (stop w))\<rparr>)"
proof -
  define d where "d = det (stop w)"
  have m: "(if microphone d then d\<lparr>microphone := False\<rparr> else d) = d\<lparr>microphone := False\<rparr>"
    by (cases d) simp
  have a: "(if analyzer e then e\<lparr>analyzer := False\<rparr> else e) = e\<lparr>analyzer := False\<rparr>" for e :: detector
    by (cases e) simp
  have s: "(if stream e then e\<lparr>stream := False\<rparr> else e) = e\<lparr>stream := False\<rparr>" for e :: detector
    by (cases e) simp
  show ?thesis
  proof (cases "audioContext d")
    case None
    then have "d\<lparr>audioContext := None\<rparr> = d" by (cases d) simp
    with None show ?thesis
      unfolding cleanup_def Let_def d_def [symmetric] m a
      by (simp add: s released_def)
  next
    case (Some c)
    then show ?thesis
      unfolding cleanup_def Let_def d_def [symmetric] m a
      by (cases c) (simp_all add: s released_def ctx_close_def)
  qed
qed

text \<open>
  C9: \<open>cleanup\<close> of the recorder and of the detector never throws, whatever the state,
  and leaves the component released (the recorder has no \<open>MediaRecorder\<close> and no stream,
  the detector is neither initialised nor running and holds no audio context or stream);
  a second \<open>cleanup\<close> does not throw either and changes nothing.
\<close>

theorem C9_cleanup_idempotent:
  "(\<exists>r1. recorder_cleanup r = Inr r1 \<and> getState r1 = None \<and> \<not> rec_stream r1
          \<and> recorder_cleanup r1 = Inr r1)
   \<and> (\<exists>w1. cleanup w = Inr w1 \<and> \<not> isInitialized (det w1) \<and> \<not> isRunning (det w1)
          \<and> audioContext (det w1) = None \<and> \<not> stream (det w1)
          \<and> cleanup w1 = Inr w1)"
proof
  show "\<exists>r1. recorder_cleanup r = Inr r1 \<and> getState r1 = None \<and> \<not> rec_stream r1
          \<and> recorder_cleanup r1 = Inr r1"
    by (simp add: recorder_cleanup_result getState_def)
next
  let ?w1 = "(stop w)\<lparr>det := released (det (stop w))\<rparr>"
  have d1: "det ?w1 = released (det (stop w))" by simp
  have st: "stop ?w1 = ?w1"
    by (rule stop_stopped) (simp_all add: released_def stop_det)
  have rr: "released (released d) = released d" for d
    by (simp add: released_def)
  have "cleanup ?w1 = Inr ?w1"
    by (simp add: cleanup_result [of ?w1] st rr)
  moreover have "\<not> isInitialized (det ?w1) \<and> \<not> isRunning (det ?w1)
      \<and> audioContext (det ?w1) = None \<and> \<not> stream (det ?w1)"
    by (simp add: released_def stop_det)
  ultimately show "\<exists>w1. cleanup w = Inr w1 \<and> \<not> isInitialized (det w1) \<and> \<not> isRunning (det w1)
          \<and> audioContext (det w1) = None \<and> \<not> stream (det w1)
          \<and> cleanup w1 = Inr w1"
    by (simp add: cleanup_result [of w])
qed

theorem C9_cleanup_idempotent_witness:
  "recorder_cleanup \<lparr>mediaRecorder = Some MrRecording, audioChunks = [webm_blob], rec_stream = True\<rparr>
     = Inr \<lparr>mediaRecorder = None, audioChunks = [], rec_stream = False\<rparr>
   \<and> recorder_cleanup \<lparr>mediaRecorder = None, audioChunks = [], rec_stream = False\<rparr>
     = Inr \<lparr>mediaRecorder = None, audioChunks = [], rec_stream = False\<rparr>
   \<and> (\<exists>w1. cleanup (quiet_world 0 2) = Inr w1 \<and> \<not> isInitialized (det w1)
          \<and> \<not> isRunning (det w1) \<and> cleanup w1 = Inr w1)"
  using C9_cleanup_idempotent
    [of "\<lparr>mediaRecorder = Some MrRecording, audioChunks = [webm_blob], rec_stream = True\<rparr>"
        "quiet_world 0 2"]
  by (auto simp: recorder_cleanup_result)

section \<open>The OpenAI functions\<close>

lemma trim_blank: "(trim s = []) = (\<forall>c \<in> set s. is_ws c)"
proof (cases "\<forall>c \<in> set s. is_ws c")
  case True
  then have d: "dropWhile is_ws s = []" by (induction s) simp_all
  have "trim s = []" by (simp add: trim_def d)
  with True show ?thesis by simp
next
  case False
  then have ne: "dropWhile is_ws s \<noteq> []" by (induction s) auto
  then have "\<not> is_ws (hd (dropWhile is_ws s))" by (rule hd_dropWhile)
  moreover have "hd (dropWhile is_ws s) \<in> set (rev (dropWhile is_ws s))" using ne by simp
  ultimately have "dropWhile is_ws (rev (dropWhile is_ws s)) \<noteq> []"
    by (auto simp: dropWhile_eq_Nil_conv)
  then have "trim s \<noteq> []" by (simp add: trim_def)
  with False show ?thesis by simp
qed

text \<open>
  C10: for a response with at least one choice, \<open>sendMessageToGPT4o\<close> returns the trimmed
  transcript of the audio object when that is a non-blank string, whatever the content;
  otherwise it returns the trimmed content when that is a non-blank string; with neither,
  it returns the empty text together with the audio data when there are audio data, and
  throws \<open>No response received from API\<close> when there are none. It never returns an empty
  text without audio data, and it throws nothing else.
\<close>

theorem C10_transcript_preferred:
  assumes key: "apiKey \<noteq> []"
    and resp: "chat_endpoint b (createChatCompletionRequest message history audioOptions)
                 = Ok (Some (m # ms))"
  shows "(\<forall>a t. audio m = Some a \<and> audio_transcript a = Some t \<and> trim t \<noteq> [] \<longrightarrow>
            snd (sendMessageToGPT4o b message history apiKey audioOptions)
              = Inr \<lparr>resp_text = trim t,
                     resp_audioData = (case audio_data a of
                                         Some d \<Rightarrow> if d \<noteq> [] then Some d else None
                                       | None \<Rightarrow> None)\<rparr>)
       \<and> (\<forall>c. \<not> (\<exists>a t. audio m = Some a \<and> audio_transcript a = Some t \<and> trim t \<noteq> [])
            \<and> content m = Some c \<and> trim c \<noteq> [] \<longrightarrow>
            (\<exists>ad. snd (sendMessageToGPT4o b message history apiKey audioOptions)
                     = Inr \<lparr>resp_text = trim c, resp_audioData = ad\<rparr>))
       \<and> (\<forall>a d. \<not> (\<exists>a t. audio m = Some a \<and> audio_transcript a = Some t \<and> trim t \<noteq> [])
            \<and> (\<forall>c. content m = Some c \<longrightarrow> trim c = [])
            \<and> audio m = Some a \<and> audio_data a = Some d \<and> d \<noteq> [] \<longrightarrow>
            snd (sendMessageToGPT4o b message history apiKey audioOptions)
              = Inr \<lparr>resp_text = [], resp_audioData = Some d\<rparr>)
       \<and> (\<not> (\<exists>a t. audio m = Some a \<and> audio_transcript a = Some t \<and> trim t \<noteq> [])
            \<and> (\<forall>c. content m = Some c \<longrightarrow> trim c = [])
            \<and> (\<forall>a d. audio m = Some a \<and> audio_data a = Some d \<longrightarrow> d = [])
            \<longrightarrow> snd (sendMessageToGPT4o b message history apiKey audioOptions)
                  = Inl (Error ''No response received from API''))
       \<and> (\<forall>c r. transcript_text m = None \<and> content m = Some c
            \<and> snd (sendMessageToGPT4o b message history apiKey audioOptions) = Inr r
            \<longrightarrow> resp_text r = trim c)
       \<and> (\<forall>r. transcript_text m = None \<and> content m = None
            \<and> snd (sendMessageToGPT4o b message history apiKey audioOptions) = Inr r
            \<longrightarrow> resp_text r = [])
       \<and> (\<forall>r. snd (sendMessageToGPT4o b message history apiKey audioOptions) = Inr r
            \<longrightarrow> resp_text r \<noteq> [] \<or> resp_audioData r \<noteq> None)
       \<and> (\<forall>e. snd (sendMessageToGPT4o b message history apiKey audioOptions) = Inl e
            \<longrightarrow> e = Error ''No response received from API'')
       \<and> (transcript_text m = None \<and> (\<forall>c. content m = Some c \<longrightarrow> trim c = [])
            \<and> (\<forall>a d. audio m = Some a \<and> audio_data a = Some d \<longrightarrow> d = [])
            \<longrightarrow> snd (sendMessageToGPT4o b message history apiKey audioOptions)
                  = Inl (Error ''No response received from API''))"
proof -
  have r: "sendMessageToGPT4o b message history apiKey audioOptions
     = (let textResponse = (case transcript_text m of
                              Some t \<Rightarrow> t
                            | None \<Rightarrow> (case content m of Some c \<Rightarrow> trim c | None \<Rightarrow> []));
            audioData = (case audio m of
                           Some a \<Rightarrow> (case audio_data a of
                                        Some d \<Rightarrow> if d \<noteq> [] then Some d else None
                                      | None \<Rightarrow> None)
                         | None \<Rightarrow> None)
        in if textResponse = [] \<and> audioData = None
           then ([Complete (createChatCompletionRequest message history audioOptions)],
                 Inl (Error ''No response received from API''))
           else ([Complete (createChatCompletionRequest message history audioOptions)],
                 Inr \<lparr>resp_text = textResponse, resp_audioData = audioData\<rparr>))"
    using key resp
    by (simp add: sendMessageToGPT4o_def Let_def split: option.splits)
  have tt: "(transcript_text m = None)
      = (\<not> (\<exists>a t. audio m = Some a \<and> audio_transcript a = Some t \<and> trim t \<noteq> []))"
    by (auto simp: transcript_text_def split: option.splits)
  have c1: "\<forall>a t. audio m = Some a \<and> audio_transcript a = Some t \<and> trim t \<noteq> [] \<longrightarrow>
            snd (sendMessageToGPT4o b message history apiKey audioOptions)
              = Inr \<lparr>resp_text = trim t,
                     resp_audioData = (case audio_data a of
                                         Some d \<Rightarrow> if d \<noteq> [] then Some d else None
                                       | None \<Rightarrow> None)\<rparr>"
    unfolding r by (auto simp: transcript_text_def Let_def split: option.splits)
  have c2: "\<forall>c. transcript_text m = None \<and> content m = Some c \<and> trim c \<noteq> [] \<longrightarrow>
            (\<exists>ad. snd (sendMessageToGPT4o b message history apiKey audioOptions)
                     = Inr \<lparr>resp_text = trim c, resp_audioData = ad\<rparr>)"
    unfolding r by (auto simp: Let_def)
  have c3: "\<forall>a d. transcript_text m = None \<and> (\<forall>c. content m = Some c \<longrightarrow> trim c = [])
            \<and> audio m = Some a \<and> audio_data a = Some d \<and> d \<noteq> [] \<longrightarrow>
            snd (sendMessageToGPT4o b message history apiKey audioOptions)
              = Inr \<lparr>resp_text = [], resp_audioData = Some d\<rparr>"
    unfolding r by (auto simp: Let_def split: option.splits)
  have c4: "transcript_text m = None \<and> (\<forall>c. content m = Some c \<longrightarrow> trim c = [])
            \<and> (\<forall>a d. audio m = Some a \<and> audio_data a = Some d \<longrightarrow> d = [])
            \<longrightarrow> snd (sendMessageToGPT4o b message history apiKey audioOptions)
                  = Inl (Error ''No response received from API'')"
    unfolding r by (auto simp: Let_def split: option.splits)
  have c5: "(\<forall>c r. transcript_text m = None \<and> content m = Some c
            \<and> snd (sendMessageToGPT4o b message history apiKey audioOptions) = Inr r
            \<longrightarrow> resp_text r = trim c)
       \<and> (\<forall>r. transcript_text m = None \<and> content m = None
            \<and> snd (sendMessageToGPT4o b message history apiKey audioOptions) = Inr r
            \<longrightarrow> resp_text r = [])
       \<and> (\<forall>r. snd (sendMessageToGPT4o b message history apiKey audioOptions) = Inr r
            \<longrightarrow> resp_text r \<noteq> [] \<or> resp_audioData r \<noteq> None)
       \<and> (\<forall>e. snd (sendMessageToGPT4o b message history apiKey audioOptions) = Inl e
            \<longrightarrow> e = Error ''No response received from API'')"
    unfolding r by (auto simp: Let_def split: option.splits if_splits)
  show ?thesis
    using c1 c2 c3 c4 c5 unfolding tt by blast
qed

theorem C10_transcript_preferred_witness:
  "snd (sendMessageToGPT4o audio_backend ''hello'' [] ''sk-test'' None)
     = Inr \<lparr>resp_text = ''Hello there'', resp_audioData = Some ''UklGRg==''\<rparr>
   \<and> snd (sendMessageToGPT4o text_backend ''hello'' [] ''sk-test'' None)
     = Inr \<lparr>resp_text = ''Hi there.'', resp_audioData = None\<rparr>"
proof -
  have key: "''sk-test'' \<noteq> []" by simp
  have resp: "chat_endpoint audio_backend (createChatCompletionRequest ''hello'' [] None)
      = Ok (Some (\<lparr>role = RoleAssistant, content = None,
          audio = Some \<lparr>audio_transcript = Some ''Hello there'',
                          audio_data = Some ''UklGRg==''\<rparr>\<rparr> # []))"
    by (simp add: audio_backend_def)
  have t: "trim ''Hello there'' = ''Hello there''" by (simp add: trim_def is_ws_def)
  have a: "snd (sendMessageToGPT4o audio_backend ''hello'' [] ''sk-test'' None)
     = Inr \<lparr>resp_text = ''Hello there'', resp_audioData = Some ''UklGRg==''\<rparr>"
    using C10_transcript_preferred [OF key resp] by (simp add: t)
  have resp2: "chat_endpoint text_backend (createChatCompletionRequest ''hello'' [] None)
      = Ok (Some (\<lparr>role = RoleAssistant, content = Some '' Hi there. '',
          audio = Some \<lparr>audio_transcript = Some [CHR 0xA0], audio_data = None\<rparr>\<rparr> # []))"
    by (simp add: text_backend_def)
  have t2: "trim '' Hi there. '' = ''Hi there.''" "trim [CHR 0xA0] = []"
    by (simp_all add: trim_def is_ws_def)
  from C10_transcript_preferred [OF key resp2]
  have "\<exists>ad. snd (sendMessageToGPT4o text_backend ''hello'' [] ''sk-test'' None)
            = Inr \<lparr>resp_text = ''Hi there.'', resp_audioData = ad\<rparr>"
    by (simp add: t2)
  moreover have "\<forall>r. snd (sendMessageToGPT4o text_backend ''hello'' [] ''sk-test'' None) = Inr r
       \<longrightarrow> resp_audioData r = None"
    by (simp add: sendMessageToGPT4o_def text_backend_def transcript_text_def t2 Let_def)
  ultimately have b: "snd (sendMessageToGPT4o text_backend ''hello'' [] ''sk-test'' None)
     = Inr \<lparr>resp_text = ''Hi there.'', resp_audioData = None\<rparr>"
    by auto
  show ?thesis using a b by simp
qed

section \<open>The pipelines of VoiceChatInterface and VoiceChat\<close>

subsection \<open>C6: an empty transcription\<close>

text \<open>A blank transcription makes the audio workflow throw after the first request.\<close>

lemma sendAudioToGPT4o_blank:
  assumes "apiKey \<noteq> []"
    and "transcription_endpoint b (prepareAudioForTranscription audioBlob) = Ok t"
    and "trim t = []"
  shows "sendAudioToGPT4o b audioBlob history apiKey audioOptions
           = ([Transcribe (prepareAudioForTranscription audioBlob)], Inl emptyTranscriptionError)"
  using assms
  by (simp add: sendAudioToGPT4o_def transcribeAudio_def validateApiKey_def
      parseTranscriptionResponse_def emptyTranscriptionError_def Let_def)

text \<open>
  C6: when the key is set and the transcription request succeeds with a text that is
  empty or blank, \<open>sendAudioToGPT4o\<close> throws the empty-transcription error after the
  transcription request alone; \<open>processAudioAndGetResponse\<close> then sends no other request,
  sets the state to error (never to speaking) with that message, marks the pending user
  entry as an error with that message, and appends no assistant entry. (The identifier of
  the pending entry is the decimal text of the clock, hence not empty.)
\<close>

theorem C6_empty_transcription:
  assumes key: "apiKey \<noteq> []"
    and uid: "userMessageId env \<noteq> []"
    and ok: "transcription_endpoint (api env) (prepareAudioForTranscription audioBlob) = Ok t"
    and blank: "trim t = []"
  shows "snd (sendAudioToGPT4o (api env) audioBlob history apiKey audioOptions)
           = Inl emptyTranscriptionError
       \<and> fst (sendAudioToGPT4o (api env) audioBlob history apiKey audioOptions)
           = [Transcribe (prepareAudioForTranscription audioBlob)]
       \<and> snd (processAudioAndGetResponse env apiKey audioBlob s)
           = [SetVoiceState Processing, Request (Transcribe (prepareAudioForTranscription audioBlob)),
              SetVoiceState ErrorState, SetTimeout 5000 ResetToIdle]
       \<and> voiceState (fst (processAudioAndGetResponse env apiKey audioBlob s)) = ErrorState
       \<and> errorMessage (fst (processAudioAndGetResponse env apiKey audioBlob s))
           = Some (error_message emptyTranscriptionError)
       \<and> messages (fst (processAudioAndGetResponse env apiKey audioBlob s))
           = map (\<lambda>msg. if m_id msg = userMessageId env
                    then msg\<lparr>m_status := Some StatusError,
                             m_errorMessage := Some (error_message emptyTranscriptionError)\<rparr>
                    else msg) (messages s)
             @ [\<lparr>m_id = userMessageId env, m_content = ''Processing your audio...'',
                 m_sender = SenderUser, m_timestamp = timestamp env,
                 m_status = Some StatusError,
                 m_errorMessage = Some (error_message emptyTranscriptionError)\<rparr>]
       \<and> map m_sender (messages (fst (processAudioAndGetResponse env apiKey audioBlob s)))
           = map m_sender (messages s) @ [SenderUser]"
proof -
  note a = sendAudioToGPT4o_blank [OF key ok blank]
  have p: "processAudioAndGetResponse env apiKey audioBlob s
     = (s\<lparr>messages := map (\<lambda>msg. if m_id msg = userMessageId env
                    then msg\<lparr>m_status := Some StatusError,
                             m_errorMessage := Some (error_message emptyTranscriptionError)\<rparr>
                    else msg) (messages s)
             @ [\<lparr>m_id = userMessageId env, m_content = ''Processing your audio...'',
                 m_sender = SenderUser, m_timestamp = timestamp env,
                 m_status = Some StatusError,
                 m_errorMessage = Some (error_message emptyTranscriptionError)\<rparr>],
          voiceState := ErrorState,
          errorMessage := Some (error_message emptyTranscriptionError)\<rparr>,
        [SetVoiceState Processing, Request (Transcribe (prepareAudioForTranscription audioBlob)),
         SetVoiceState ErrorState, SetTimeout 5000 ResetToIdle])"
    using key uid
    by (simp add: processAudioAndGetResponse_def a handleApiError_def Let_def)
  have f: "map m_sender (map (\<lambda>msg. if m_id msg = i
                    then msg\<lparr>m_status := st, m_errorMessage := em\<rparr> else msg) ms)
           = map m_sender ms" for i st em ms
    by (induction ms) simp_all
  show ?thesis
    by (simp add: a p f)
qed

theorem C6_empty_transcription_witness:
  "snd (sendAudioToGPT4o blank_backend webm_blob [] ''sk-test'' None) = Inl emptyTranscriptionError
   \<and> voiceState (fst (processAudioAndGetResponse (example_env blank_backend) ''sk-test'' webm_blob
         vci_initial)) = ErrorState
   \<and> messages (fst (processAudioAndGetResponse (example_env blank_backend) ''sk-test'' webm_blob
         vci_initial))
       = [\<lparr>m_id = ''1700000000000'', m_content = ''Processing your audio...'',
           m_sender = SenderUser, m_timestamp = 1700000000000, m_status = Some StatusError,
           m_errorMessage = Some ''Could not transcribe audio. Please try speaking more clearly.''\<rparr>]"
proof -
  have key: "''sk-test'' \<noteq> []" by simp
  have uid: "userMessageId (example_env blank_backend) \<noteq> []" by (simp add: example_env_def)
  have ok: "transcription_endpoint (api (example_env blank_backend))
              (prepareAudioForTranscription webm_blob) = Ok [CHR '' '', CHR 0xA0]"
    by (simp add: example_env_def blank_backend_def)
  have blank: "trim [CHR '' '', CHR 0xA0] = []" by (simp add: trim_def is_ws_def)
  have api: "api (example_env blank_backend) = blank_backend" by (simp add: example_env_def)
  show ?thesis
    using C6_empty_transcription [OF key uid ok blank, of "[]" None vci_initial]
    by (simp add: api example_env_def vci_initial_def emptyTranscriptionError_def)
qed

subsection \<open>C5: the history sent with a request\<close>

text \<open>
  C5 does not hold of the text pipeline of VoiceChatInterface: with a chat that holds a
  pending entry (status \<open>sending\<close>), \<open>handleSendMessage\<close> sends that entry to the backend
  as part of the history.
\<close>

theorem C5_text_pipeline_sends_pending_entry:
  "snd (handleSendMessage (example_env offline_backend) ''sk-test'' ''hello''
          (vci_initial\<lparr>messages := [welcome_message, pending_audio]\<rparr>))
   = [SetVoiceState Processing,
      Request (Complete
        \<lparr>req_model = ''gpt-4o-audio-preview'',
         req_messages =
           [\<lparr>role = RoleSystem, content = Some systemPrompt, audio = None\<rparr>,
            \<lparr>role = RoleAssistant, content = Some ''Hello!'', audio = None\<rparr>,
            \<lparr>role = RoleUser, content = Some ''Processing your audio...'', audio = None\<rparr>,
            \<lparr>role = RoleUser, content = Some ''hello'', audio = None\<rparr>],
         req_max_tokens = 150, req_modalities = [''text'', ''audio''],
         req_voice = ''alloy'', req_format = ''wav''\<rparr>),
      SetVoiceState ErrorState, SetTimeout 5000 ResetToIdle]
   \<and> m_status pending_audio = Some StatusSending"
proof -
  have t: "trim ''hello'' = ''hello''" by (simp add: trim_def is_ws_def)
  show ?thesis
    by (simp add: handleSendMessage_def t example_env_def offline_backend_def vci_initial_def
        welcome_message_def pending_audio_def history_of_def formatConversationHistory_def
        service_sendMessageToGPT4o_def validateApiKey_def createChatCompletionRequest_def
        parseChatCompletionResponse_def handleApiError_def or_else_def Let_def)
qed

text \<open>
  The audio pipeline of the same component and the text pipeline of VoiceChat leave the
  pending entry out.
\<close>

lemma sendAudioToGPT4o_audio_backend:
  "sendAudioToGPT4o audio_backend webm_blob hist ''sk-test'' None
     = ([Transcribe webm_blob, Complete (createChatCompletionRequest ''hi'' hist None)],
        Inr \<lparr>ar_transcription = ''hi'', ar_textResponse = ''Hello there'',
             ar_audioData = Some ''UklGRg==''\<rparr>)"
proof -
  have t: "trim ''hi'' = ''hi''" "trim ''Hello there'' = ''Hello there''"
    by (simp_all add: trim_def is_ws_def)
  show ?thesis
    by (simp add: sendAudioToGPT4o_def transcribeAudio_def prepareAudioForTranscription_def
        parseTranscriptionResponse_def validateApiKey_def service_sendMessageToGPT4o_def
        parseChatCompletionResponse_def transcript_text_def audio_backend_def webm_blob_def
        t Let_def)
qed

lemma audio_pipeline_leaves_pending_entry_out:
  "snd (processAudioAndGetResponse (example_env audio_backend) ''sk-test'' webm_blob
          (vci_initial\<lparr>messages := [welcome_message, pending_audio]\<rparr>)) ! 2
   = Request (Complete (createChatCompletionRequest ''hi''
        [\<lparr>role = RoleAssistant, content = Some ''Hello!'', audio = None\<rparr>] None))"
proof -
  have h: "history_of (\<lambda>msg. m_status msg \<noteq> Some StatusSending \<and> m_status msg \<noteq> Some StatusError)
             [welcome_message, pending_audio]
           = [\<lparr>role = RoleAssistant, content = Some ''Hello!'', audio = None\<rparr>]"
    by (simp add: history_of_def formatConversationHistory_def welcome_message_def pending_audio_def)
  have e: "api (example_env audio_backend) = audio_backend" by (simp add: example_env_def)
  show ?thesis
    unfolding processAudioAndGetResponse_def Let_def
    by (simp add: e vci_initial_def h sendAudioToGPT4o_audio_backend split: prod.splits)
qed

lemma voice_chat_leaves_pending_entry_out:
  "snd (vc_handleSendMessage (example_env offline_backend) ''sk-test'' ''hello''
          \<lparr>vc_state = Idle, vc_error = None, vc_isRecording = False,
           vc_messages = [welcome_message, pending_audio]\<rparr>)
   = [VcRequest (Complete (createChatCompletionRequest ''hello''
        [\<lparr>role = RoleAssistant, content = Some ''Hello!'', audio = None\<rparr>] None))]"
proof -
  have t: "trim ''hello'' = ''hello''" by (simp add: trim_def is_ws_def)
  show ?thesis
    by (simp add: vc_handleSendMessage_def t example_env_def offline_backend_def
        welcome_message_def pending_audio_def formatConversationHistory_def
        service_sendMessageToGPT4o_def validateApiKey_def parseChatCompletionResponse_def
        Let_def)
qed

subsection \<open>C7: playing the response\<close>

text \<open>
  C7 does not hold of VoiceChatInterface: for a response with audio data whose playback is
  rejected, in a browser that supports speech synthesis, the audio pipeline ends with the
  state still \<open>Speaking\<close>; after \<open>audio.play()\<close> nothing follows: no speech synthesis, no
  change of the state to idle, no timer.
\<close>

theorem C7_no_fallback_speech_no_done:
  "processAudioAndGetResponse (example_env audio_backend) ''sk-test'' webm_blob vci_initial
   = (vci_initial\<lparr>messages :=
          [\<lparr>m_id = ''1700000000000'', m_content = ''hi'', m_sender = SenderUser,
            m_timestamp = 1700000000000, m_status = Some StatusSent, m_errorMessage = None\<rparr>,
           \<lparr>m_id = ''1700000000001'', m_content = ''Hello there'', m_sender = SenderAi,
            m_timestamp = 1700000000000, m_status = Some StatusSent, m_errorMessage = None\<rparr>],
        voiceState := Speaking, transcription := ''hi''\<rparr>,
      [SetVoiceState Processing, Request (Transcribe webm_blob),
       Request (Complete (createChatCompletionRequest ''hi'' [] None)),
       SetVoiceState Speaking, SetTimeout 100 DelayedPlay, OnSendMessage ''hi'',
       AudioPlay ''UklGRg==''])
   \<and> play (example_env audio_backend) = PlayRejected
   \<and> speech_supported (example_env audio_backend)"
proof -
  note a = sendAudioToGPT4o_audio_backend [of "[]"]
  have p: "play_and_finish (example_env audio_backend) u ''hi'' ''Hello there'' (Some ''UklGRg=='') s
     = (s, [SetTimeout 100 DelayedPlay, OnSendMessage ''hi'', AudioPlay ''UklGRg==''])" for u s
    by (simp add: play_and_finish_def start_playback_def delayed_play_def
        fallbackToTextToSpeech_def speak_def example_env_def)
  have h: "history_of keep [] = []" for keep
    by (simp add: history_of_def formatConversationHistory_def)
  have e: "api (example_env audio_backend) = audio_backend"
    "userMessageId (example_env audio_backend) = ''1700000000000''"
    "aiResponseId (example_env audio_backend) = ''1700000000001''"
    "timestamp (example_env audio_backend) = 1700000000000"
    by (simp_all add: example_env_def)
  have "processAudioAndGetResponse (example_env audio_backend) ''sk-test'' webm_blob vci_initial
   = (vci_initial\<lparr>messages :=
          [\<lparr>m_id = ''1700000000000'', m_content = ''hi'', m_sender = SenderUser,
            m_timestamp = 1700000000000, m_status = Some StatusSent, m_errorMessage = None\<rparr>,
           \<lparr>m_id = ''1700000000001'', m_content = ''Hello there'', m_sender = SenderAi,
            m_timestamp = 1700000000000, m_status = Some StatusSent, m_errorMessage = None\<rparr>],
        voiceState := Speaking, transcription := ''hi''\<rparr>,
      [SetVoiceState Processing, Request (Transcribe webm_blob),
       Request (Complete (createChatCompletionRequest ''hi'' [] None)),
       SetVoiceState Speaking, SetTimeout 100 DelayedPlay, OnSendMessage ''hi'',
       AudioPlay ''UklGRg==''])"
    unfolding processAudioAndGetResponse_def Let_def
    by (simp add: e vci_initial_def h a p)
  then show ?thesis by (simp add: example_env_def)
qed

text \<open>
  Without audio data the error of \<open>fallbackToTextToSpeech\<close> reaches \<open>handleApiError\<close>: the
  turn ends in the error state although the backend has answered.
\<close>

lemma no_audio_data_ends_in_error:
  assumes "speech_supported env"
  shows "play_and_finish env u sentText x None s
     = (fst (handleApiError (controller_then (Controller x)) (Some u) s),
        [SetVoiceState ErrorState, SetTimeout 5000 ResetToIdle])"
  using assms
  by (simp add: play_and_finish_def start_playback_def fallbackToTextToSpeech_def speak_def
      handleApiError_def Let_def split: prod.splits)

text \<open>
  No path of the component starts the speech synthesis: the effect \<open>SpeechSynthesisSpeak\<close>
  never occurs.
\<close>

lemma fallback_never_speaks:
  "SpeechSynthesisSpeak t \<notin> set (snd (snd (fallbackToTextToSpeech env txt s)))"
  by (simp add: fallbackToTextToSpeech_def speak_def)

lemma handleApiError_never_speaks:
  "handleApiError err i s = (s', effs) \<Longrightarrow> SpeechSynthesisSpeak t \<notin> set effs"
  by (auto simp: handleApiError_def Let_def)

lemma play_and_finish_never_speaks:
  "SpeechSynthesisSpeak t \<notin> set (snd (play_and_finish env u sentText txt audioData s))"
proof -
  obtain e s1 effs where f: "fallbackToTextToSpeech env txt s = (e, s1, effs)"
    by (cases "fallbackToTextToSpeech env txt s") auto
  have n: "SpeechSynthesisSpeak t \<notin> set effs"
    using fallback_never_speaks [of t env "txt" s] by (simp add: f)
  show ?thesis
    using n
    by (auto simp: play_and_finish_def start_playback_def delayed_play_def f
        split: option.splits prod.splits play_outcome.splits if_splits
        dest: handleApiError_never_speaks)
qed

lemma play_and_finish_never_speaks':
  "play_and_finish env u sentText x audioData s = (s', effs) \<Longrightarrow> SpeechSynthesisSpeak t \<notin> set effs"
  using play_and_finish_never_speaks [of t env u sentText x audioData s] by simp

lemma audio_pipeline_never_speaks:
  "SpeechSynthesisSpeak t \<notin> set (snd (processAudioAndGetResponse env apiKey audioBlob s))"
  by (auto simp: processAudioAndGetResponse_def missing_key_error_def Let_def
      split: prod.splits sum.splits
      dest: handleApiError_never_speaks play_and_finish_never_speaks')

lemma text_pipeline_never_speaks:
  "SpeechSynthesisSpeak t \<notin> set (snd (handleSendMessage env apiKey message s))"
  by (auto simp: handleSendMessage_def missing_key_error_def Let_def
      split: prod.splits sum.splits
      dest: handleApiError_never_speaks play_and_finish_never_speaks')

subsection \<open>C8: a blank text message\<close>

text \<open>
  C8: a text message that is empty or consists of white space only (\<open>trim\<close> leaves
  nothing, that is, by \<open>trim_blank\<close>, every character is white space) is rejected by
  \<open>handleSendMessage\<close> of both components at once: the state, and with it the chat, is
  unchanged and nothing is sent or done.
\<close>

theorem C8_blank_text_rejected:
  assumes "trim message = []"
  shows "handleSendMessage env apiKey message s = (s, [])
       \<and> vc_handleSendMessage env apiKey message v = (v, [])"
  using assms by (simp add: handleSendMessage_def vc_handleSendMessage_def)

theorem C8_blank_text_rejected_witness:
  "trim [CHR '' '', CHR 0xA0, CHR 0x09] = []
   \<and> handleSendMessage (example_env audio_backend) ''sk-test'' [CHR '' '', CHR 0xA0, CHR 0x09]
        vci_initial = (vci_initial, [])
   \<and> vc_handleSendMessage (example_env audio_backend) ''sk-test'' [CHR '' '', CHR 0xA0, CHR 0x09]
        \<lparr>vc_state = Idle, vc_error = None, vc_isRecording = False, vc_messages = [welcome_message]\<rparr>
      = (\<lparr>vc_state = Idle, vc_error = None, vc_isRecording = False, vc_messages = [welcome_message]\<rparr>, [])"
proof -
  have t: "trim [CHR '' '', CHR 0xA0, CHR 0x09] = []" by (simp add: trim_def is_ws_def)
  show ?thesis using t C8_blank_text_rejected [OF t] by simp
qed

subsection \<open>C4: the request to begin recording\<close>





end
